theory Spec2Isabelle
  imports Complex_Main "HOL-Library.Word"
begin

unbundle bit_operations_syntax

section \<open>fspy2vmd: data model\<close>

text \<open>
  The converter of \<^verbatim>\<open>FspyVmdConverter.ts\<close> applies an fSpy calibration to a three.js
  \<^verbatim>\<open>PerspectiveCamera\<close> and serialises the camera as a VMD camera motion.

  A JavaScript \<^verbatim>\<open>number\<close> is modelled as a \<^typ>\<open>real\<close>: the finite values, without
  the rounding of IEEE doubles. A slot that may hold \<^verbatim>\<open>undefined\<close> is a
  \<^typ>\<open>real option\<close>. The division by the image height is written out (\<open>js_div\<close>),
  since a zero divisor gives a non-finite value there and \<open>0\<close> in HOL. A string is a list
  of 8-bit characters, which holds the one string that the source writes, an ASCII literal.
\<close>

type_synonym byte = "8 word"
type_synonym Vector3 = "real \<times> real \<times> real"
type_synonym Quaternion = "real \<times> real \<times> real \<times> real"

text \<open>\<^verbatim>\<open>Matrix4.elements\<close>: sixteen slots in column-major order.\<close>
type_synonym Matrix4 = "real option list"

datatype FspyVmdConverterErrorCode =
    FSPY_DATA_NOT_SET
  | INVALID_CAMERA_TRANSFORM_ROWS_SIZE
  | INVALID_CAMERA_TRANSFORM_VALUE

text \<open>What a call can throw: the converter's typed error, or the \<^verbatim>\<open>RangeError\<close> of a
  \<^verbatim>\<open>DataView\<close> or typed-array write that does not fit its buffer.\<close>
datatype error = FspyVmdConverterError FspyVmdConverterErrorCode | RangeError

datatype VanishingPointAxis =
  xPositive | xNegative | yPositive | yNegative | zPositive | zNegative

datatype EulerOrder = XYZ | YXZ | ZXY | ZYX | YZX | XZY

record FspyTransformMatrix =
  rows :: "real option list list"

record FspyData =
  principalPoint :: "real \<times> real"
  viewTransform :: FspyTransformMatrix
  cameraTransform :: FspyTransformMatrix
  horizontalFieldOfView :: real
  verticalFieldOfView :: real
  vanishingPoints :: "(real \<times> real) list"
  vanishingPointAxes :: "VanishingPointAxis list"
  relativeFocalLength :: real
  imageWidth :: real
  imageHeight :: real

record ApplyFSpyToCameraOptions =
  opt_near :: "real option"
  opt_far :: "real option"

record ExportVmdOptions =
  distanceMultiplier :: "real option"
  target :: "Vector3 option"
  frameTime :: "real option"

record FspyVmdConverterOptions =
  distanceBaseMultiplier :: "real option"

record CameraFrame =
  cf_frameTime :: real
  cf_distance :: real
  cf_position :: Vector3
  cf_rotation :: Vector3
  cf_curve :: "real list"
  cf_viewAngle :: real
  cf_orthographic :: real

text \<open>The fields of the three.js camera that the converter reads or writes. \<open>aspect\<close> is
  \<open>None\<close> when it holds a non-finite value.\<close>
record PerspectiveCamera =
  fov :: real
  aspect :: "real option"
  near :: real
  far :: real
  projectionMatrix :: Matrix4
  matrixAutoUpdate :: bool
  matrix :: Matrix4
  matrixWorld :: Matrix4
  position :: Vector3
  quaternion :: Quaternion
  scale :: Vector3

text \<open>
  three.js is not part of the repository. Its operations that compute something from the
  camera are parameters of the model: the projection matrix that
  \<^verbatim>\<open>updateProjectionMatrix\<close> builds, \<^verbatim>\<open>Matrix4.decompose\<close> and \<^verbatim>\<open>Matrix4.compose\<close>,
  \<^verbatim>\<open>updateMatrixWorld\<close> (which depends on the scene graph around the camera), the two
  world-space getters and \<^verbatim>\<open>Euler.setFromQuaternion\<close>.
\<close>
record three =
  makePerspective :: "PerspectiveCamera \<Rightarrow> Matrix4"
  decompose :: "Matrix4 \<Rightarrow> Vector3 \<times> Quaternion \<times> Vector3"
  compose :: "Vector3 \<Rightarrow> Quaternion \<Rightarrow> Vector3 \<Rightarrow> Matrix4"
  updateMatrixWorld :: "PerspectiveCamera \<Rightarrow> PerspectiveCamera"
  getWorldPosition :: "PerspectiveCamera \<Rightarrow> Vector3"
  getWorldQuaternion :: "PerspectiveCamera \<Rightarrow> Quaternion"
  setFromQuaternion :: "Quaternion \<Rightarrow> EulerOrder \<Rightarrow> Vector3"

text \<open>The converter object: \<^verbatim>\<open>this.camera\<close>, \<^verbatim>\<open>this.fspyData\<close> (\<open>None\<close> is \<^verbatim>\<open>null\<close>) and
  \<^verbatim>\<open>this.converterOptions\<close>, whose one field is always set.\<close>
record FspyVmdConverter =
  camera :: PerspectiveCamera
  fspyData :: "FspyData option"
  converterOptions :: real

section \<open>Constants\<close>

definition DEGREES_PER_HALF_TURN :: real where "DEGREES_PER_HALF_TURN = 180"
definition MATRIX_SIZE :: nat where "MATRIX_SIZE = 4"
definition MATRIX_ELEMENT_COUNT :: nat where "MATRIX_ELEMENT_COUNT = 16"
definition DEFAULT_NEAR :: real where "DEFAULT_NEAR = 1 / 100"
definition DEFAULT_FAR :: real where "DEFAULT_FAR = 2000"
definition CAMERA_CURVE_START :: real where "CAMERA_CURVE_START = 20"
definition CAMERA_CURVE_END :: real where "CAMERA_CURVE_END = 107"
definition CAMERA_CURVE_PAIR_COUNT :: nat where "CAMERA_CURVE_PAIR_COUNT = 12"
definition VMD_HEADER_SIZE :: nat where "VMD_HEADER_SIZE = 30"
definition VMD_MODEL_NAME_SIZE :: nat where "VMD_MODEL_NAME_SIZE = 20"
definition VMD_UINT32_SIZE :: nat where "VMD_UINT32_SIZE = 4"
definition VMD_CAMERA_FRAME_SIZE :: nat where "VMD_CAMERA_FRAME_SIZE = 61"
definition ASCII_MASK :: byte where "ASCII_MASK = 0x7f"
definition VMD_COUNT_FIELDS :: nat where "VMD_COUNT_FIELDS = 6"
definition DISTANCE_BASE_MULTIPLIER :: real where "DISTANCE_BASE_MULTIPLIER = 5"
definition DEFAULT_FRAME_TIME :: real where "DEFAULT_FRAME_TIME = 0"
definition DEFAULT_ORTHOGRAPHIC :: real where "DEFAULT_ORTHOGRAPHIC = 0"

definition CAMERA_MODEL_NAME_SJIS :: "byte list" where
  "CAMERA_MODEL_NAME_SJIS =
     [0x83, 0x4a, 0x83, 0x81, 0x83, 0x89, 0x81, 0x45, 0x8f, 0xc6, 0x96, 0xbe]"

section \<open>JavaScript primitives\<close>

text \<open>\<^verbatim>\<open>a ?? b\<close>.\<close>
definition nullish :: "'a option \<Rightarrow> 'a \<Rightarrow> 'a" where
  "nullish a b = (case a of None \<Rightarrow> b | Some v \<Rightarrow> v)"

text \<open>\<^verbatim>\<open>xs[i]\<close>: \<^verbatim>\<open>undefined\<close> out of range.\<close>
definition js_index :: "'a list \<Rightarrow> nat \<Rightarrow> 'a option" where
  "js_index xs i = (if i < length xs then Some (xs ! i) else None)"

text \<open>\<^verbatim>\<open>a / b\<close>: non-finite (\<open>None\<close>) when \<open>b\<close> is zero.\<close>
definition js_div :: "real \<Rightarrow> real \<Rightarrow> real option" where
  "js_div a b = (if b = 0 then None else Some (a / b))"

text \<open>\<^verbatim>\<open>Math.round\<close> rounds half up.\<close>
definition Math_round :: "real \<Rightarrow> real" where
  "Math_round v = of_int \<lfloor>v + 1 / 2\<rfloor>"

text \<open>The integer part that \<^verbatim>\<open>ToUint32\<close> and \<^verbatim>\<open>ToUint8\<close> take before reducing modulo
  the width: truncation towards zero.\<close>
definition js_trunc :: "real \<Rightarrow> int" where
  "js_trunc v = (if v < 0 then \<lceil>v\<rceil> else \<lfloor>v\<rfloor>)"

definition ToUint32 :: "real \<Rightarrow> 32 word" where
  "ToUint32 v = word_of_int (js_trunc v)"

definition ToUint8 :: "real \<Rightarrow> byte" where
  "ToUint8 v = word_of_int (js_trunc v)"

text \<open>The four bytes of a 32-bit value, least significant first.\<close>
definition le32 :: "32 word \<Rightarrow> byte list" where
  "le32 v = [ucast v, ucast (drop_bit 8 v), ucast (drop_bit 16 v), ucast (drop_bit 24 v)]"

text \<open>\<^verbatim>\<open>Vector3.distanceTo\<close>.\<close>
fun distanceTo :: "Vector3 \<Rightarrow> Vector3 \<Rightarrow> real" where
  "distanceTo (ax, ay, az) (bx, by, bz) =
     sqrt ((ax - bx) * (ax - bx) + (ay - by) * (ay - by) + (az - bz) * (az - bz))"

text \<open>\<^verbatim>\<open>Matrix4.fromArray\<close>: copies the first sixteen slots of the array.\<close>
definition fromArray :: "real option list \<Rightarrow> Matrix4" where
  "fromArray arr = map (\<lambda>i. Option.bind (js_index arr i) id) [0..<16]"

section \<open>The matrix conversion\<close>

text \<open>The inner loop of \<^verbatim>\<open>matrixFromFSpyRows\<close>, over \<open>colIndex\<close>; \<open>arr\<close> is the array
  being filled, a hole being \<open>None\<close>.\<close>
function fillRow ::
  "real option list list \<Rightarrow> nat \<Rightarrow> nat \<Rightarrow> real option list \<Rightarrow> error + real option list"
where
  "fillRow rs rowIndex colIndex arr =
     (if colIndex < MATRIX_SIZE then
        (case Option.bind (Option.bind (js_index rs rowIndex) (\<lambda>row. js_index row colIndex)) id of
           None \<Rightarrow> Inl (FspyVmdConverterError INVALID_CAMERA_TRANSFORM_VALUE)
         | Some v \<Rightarrow>
             fillRow rs rowIndex (colIndex + 1) (arr[colIndex * MATRIX_SIZE + rowIndex := Some v]))
      else Inr arr)"
  by pat_completeness auto
termination
  by (relation "measure (\<lambda>(rs, rowIndex, colIndex, arr). MATRIX_SIZE - colIndex)") auto

text \<open>The outer loop, over \<open>rowIndex\<close>.\<close>
function fillRows ::
  "real option list list \<Rightarrow> nat \<Rightarrow> real option list \<Rightarrow> error + real option list"
where
  "fillRows rs rowIndex arr =
     (if rowIndex < MATRIX_SIZE then
        (case fillRow rs rowIndex 0 arr of
           Inl e \<Rightarrow> Inl e
         | Inr arr' \<Rightarrow> fillRows rs (rowIndex + 1) arr')
      else Inr arr)"
  by pat_completeness auto
termination
  by (relation "measure (\<lambda>(rs, rowIndex, arr). MATRIX_SIZE - rowIndex)") auto

declare fillRow.simps [simp del] fillRows.simps [simp del]

definition matrixFromFSpyRows :: "real option list list \<Rightarrow> error + Matrix4" where
  "matrixFromFSpyRows rs =
     (if length rs \<noteq> MATRIX_SIZE \<or> list_ex (\<lambda>row. length row \<noteq> MATRIX_SIZE) rs
      then Inl (FspyVmdConverterError INVALID_CAMERA_TRANSFORM_ROWS_SIZE)
      else (case fillRows rs 0 (replicate MATRIX_ELEMENT_COUNT None) of
              Inl e \<Rightarrow> Inl e
            | Inr arr \<Rightarrow> Inr (fromArray arr)))"

text \<open>The re-transposition the specification speaks of, which the source does not have:
  the row-major rows read back from sixteen column-major slots.\<close>
definition rowsFromColumnMajor :: "Matrix4 \<Rightarrow> real option list list" where
  "rowsFromColumnMajor m =
     map (\<lambda>rowIndex. map (\<lambda>colIndex. m ! (colIndex * 4 + rowIndex)) [0..<4]) [0..<4]"

section \<open>The binary writer\<close>

text \<open>
  \<^verbatim>\<open>writeCameraVmd\<close> allocates a zero-filled \<^verbatim>\<open>ArrayBuffer\<close> and fills it through five
  closures that share the buffer and a cursor \<^verbatim>\<open>offset\<close>. The shared state is the record
  \<open>writer\<close>; a closure takes it and returns it updated, or the \<^verbatim>\<open>RangeError\<close> of a write
  past the end of the buffer. (The size limit of \<^verbatim>\<open>new ArrayBuffer\<close> is a limit of the
  engine and is not modelled.)

  \<^verbatim>\<open>DataView.setFloat32\<close> rounds a double to IEEE binary32 and stores its bits; the
  rounding is the parameter \<open>enc\<close>, the bit pattern of a number.
\<close>

record writer =
  buffer :: "byte list"
  offset :: nat

type_synonym float32 = "real \<Rightarrow> 32 word"
type_synonym writing = "writer \<Rightarrow> error + writer"

text \<open>\<^verbatim>\<open>TypedArray.prototype.set(src, off)\<close>, and the bounds check that the \<^verbatim>\<open>DataView\<close>
  setters share with it.\<close>
definition typed_set :: "byte list \<Rightarrow> nat \<Rightarrow> byte list \<Rightarrow> error + byte list" where
  "typed_set src off buf =
     (if off + length src > length buf then Inl RangeError
      else Inr (take off buf @ src @ drop (off + length src) buf))"

text \<open>A write of \<open>src\<close> at the cursor, which then moves on by \<open>n\<close>.\<close>
definition put :: "byte list \<Rightarrow> nat \<Rightarrow> writing" where
  "put src n w =
     (case typed_set src (offset w) (buffer w) of
        Inl e \<Rightarrow> Inl e
      | Inr buf \<Rightarrow> Inr (w\<lparr>buffer := buf, offset := offset w + n\<rparr>))"

text \<open>Statements in sequence; the first error ends the run.\<close>
fun seqW :: "writing list \<Rightarrow> writing" where
  "seqW [] w = Inr w"
| "seqW (f # fs) w = (case f w of Inl e \<Rightarrow> Inl e | Inr w' \<Rightarrow> seqW fs w')"

definition writeBytes :: "byte list \<Rightarrow> nat \<Rightarrow> writing" where
  "writeBytes bytes len =
     (let sliced = take len bytes;
          padded = sliced @ replicate (len - length sliced) 0
      in put padded len)"

text \<open>The loop of \<^verbatim>\<open>writeAscii\<close> stores the masked code of each character at its index.\<close>
definition asciiBytes :: "string \<Rightarrow> nat \<Rightarrow> byte list" where
  "asciiBytes str len =
     fold (\<lambda>i bytes. bytes[i := of_char (str ! i) AND ASCII_MASK])
       [0..<min (length str) len] (replicate len 0)"

definition writeAscii :: "string \<Rightarrow> nat \<Rightarrow> writing" where
  "writeAscii str len = put (asciiBytes str len) len"

definition writeUint32 :: "real \<Rightarrow> writing" where
  "writeUint32 v = put (le32 (ToUint32 v)) VMD_UINT32_SIZE"

definition writeFloat32 :: "float32 \<Rightarrow> real \<Rightarrow> writing" where
  "writeFloat32 enc v = put (le32 (enc v)) VMD_UINT32_SIZE"

definition writeUint8 :: "real \<Rightarrow> writing" where
  "writeUint8 v = put [ToUint8 v] 1"

text \<open>The body of the loop over the frames.\<close>
definition writeFrame :: "float32 \<Rightarrow> CameraFrame \<Rightarrow> writing" where
  "writeFrame enc frame =
     seqW ([writeUint32 (cf_frameTime frame),
            writeFloat32 enc (cf_distance frame),
            writeFloat32 enc (fst (cf_position frame)),
            writeFloat32 enc (fst (snd (cf_position frame))),
            writeFloat32 enc (snd (snd (cf_position frame))),
            writeFloat32 enc (fst (cf_rotation frame)),
            writeFloat32 enc (fst (snd (cf_rotation frame))),
            writeFloat32 enc (snd (snd (cf_rotation frame)))]
           @ map writeUint8 (cf_curve frame)
           @ [writeUint32 (cf_viewAngle frame),
              writeUint8 (cf_orthographic frame)])"

definition writeCameraVmd :: "float32 \<Rightarrow> CameraFrame list \<Rightarrow> error + byte list" where
  "writeCameraVmd enc cameraFrames =
     (let totalSize = VMD_HEADER_SIZE + VMD_MODEL_NAME_SIZE + VMD_UINT32_SIZE * VMD_COUNT_FIELDS
                      + length cameraFrames * VMD_CAMERA_FRAME_SIZE;
          w = \<lparr>buffer = replicate totalSize 0, offset = 0\<rparr>
      in case seqW ([writeAscii ''Vocaloid Motion Data 0002'' VMD_HEADER_SIZE,
                     writeBytes CAMERA_MODEL_NAME_SJIS VMD_MODEL_NAME_SIZE,
                     writeUint32 0,
                     writeUint32 0,
                     writeUint32 (real (length cameraFrames))]
                    @ map (writeFrame enc) cameraFrames
                    @ [writeUint32 0, writeUint32 0, writeUint32 0]) w of
           Inl e \<Rightarrow> Inl e
         | Inr w' \<Rightarrow> Inr (buffer w'))"

section \<open>The converter\<close>

definition new_FspyVmdConverter ::
  "PerspectiveCamera \<Rightarrow> FspyVmdConverterOptions option \<Rightarrow> FspyVmdConverter" where
  "new_FspyVmdConverter cam options =
     \<lparr>camera = cam,
      fspyData = None,
      converterOptions =
        nullish (Option.bind options distanceBaseMultiplier) DISTANCE_BASE_MULTIPLIER\<rparr>"

definition getCamera :: "FspyVmdConverter \<Rightarrow> PerspectiveCamera" where
  "getCamera this = camera this"

definition getOptions :: "FspyVmdConverter \<Rightarrow> FspyVmdConverterOptions" where
  "getOptions this = \<lparr>distanceBaseMultiplier = Some (converterOptions this)\<rparr>"

definition radToDeg :: "real \<Rightarrow> real" where
  "radToDeg radian = (radian * DEGREES_PER_HALF_TURN) / pi"

text \<open>\<^verbatim>\<open>structuredClone\<close>, or the JSON round trip: a copy, which a value is already.\<close>
definition cloneFspyData :: "FspyData \<Rightarrow> FspyData" where
  "cloneFspyData fspy = fspy"

definition getFspyData :: "FspyVmdConverter \<Rightarrow> FspyData option" where
  "getFspyData this = (case fspyData this of None \<Rightarrow> None | Some d \<Rightarrow> Some (cloneFspyData d))"

definition updateProjectionMatrix :: "three \<Rightarrow> PerspectiveCamera \<Rightarrow> PerspectiveCamera" where
  "updateProjectionMatrix lib cam = cam\<lparr>projectionMatrix := makePerspective lib cam\<rparr>"

definition updateMatrix :: "three \<Rightarrow> PerspectiveCamera \<Rightarrow> PerspectiveCamera" where
  "updateMatrix lib cam = cam\<lparr>matrix := compose lib (position cam) (quaternion cam) (scale cam)\<rparr>"

text \<open>
  \<^verbatim>\<open>applyFSpyToCamera\<close> returns nothing and mutates the converter and its camera, also when
  it throws: the result is the error, if any, paired with the converter as the call
  leaves it.
\<close>
definition applyFSpyToCamera ::
  "three \<Rightarrow> FspyData \<Rightarrow> ApplyFSpyToCameraOptions option \<Rightarrow> FspyVmdConverter
     \<Rightarrow> error option \<times> FspyVmdConverter" where
  "applyFSpyToCamera lib fspy opts this =
     (let this1 = this\<lparr>fspyData := Some (cloneFspyData fspy)\<rparr>;
          cam1 = (camera this1)\<lparr>fov := radToDeg (verticalFieldOfView fspy)\<rparr>;
          cam2 = cam1\<lparr>aspect := js_div (imageWidth fspy) (imageHeight fspy)\<rparr>;
          cam3 = cam2\<lparr>near := nullish (Option.bind opts opt_near) DEFAULT_NEAR\<rparr>;
          cam4 = cam3\<lparr>far := nullish (Option.bind opts opt_far) DEFAULT_FAR\<rparr>;
          cam5 = updateProjectionMatrix lib cam4
      in case matrixFromFSpyRows (rows (cameraTransform fspy)) of
           Inl e \<Rightarrow> (Some e, this1\<lparr>camera := cam5\<rparr>)
         | Inr camWorld \<Rightarrow>
             (let cam6 = cam5\<lparr>matrixAutoUpdate := False\<rparr>;
                  cam7 = cam6\<lparr>matrixWorld := camWorld\<rparr>;
                  cam8 = (case decompose lib (matrixWorld cam7) of
                            (p, q, s) \<Rightarrow> cam7\<lparr>position := p, quaternion := q, scale := s\<rparr>);
                  cam9 = updateMatrix lib cam8;
                  cam10 = updateMatrixWorld lib cam9
              in (None, this1\<lparr>camera := cam10\<rparr>)))"

fun createDefaultCameraCurve_loop :: "nat \<Rightarrow> real list \<Rightarrow> real list" where
  "createDefaultCameraCurve_loop 0 curve = curve"
| "createDefaultCameraCurve_loop (Suc n) curve =
     createDefaultCameraCurve_loop n (curve @ [CAMERA_CURVE_START, CAMERA_CURVE_END])"

definition createDefaultCameraCurve :: "real list" where
  "createDefaultCameraCurve = createDefaultCameraCurve_loop CAMERA_CURVE_PAIR_COUNT []"

text \<open>The frame that \<^verbatim>\<open>exportVmd\<close> builds once the held record is known to be set.\<close>
definition exportVmd_frame :: "three \<Rightarrow> ExportVmdOptions \<Rightarrow> FspyVmdConverter \<Rightarrow> CameraFrame" where
  "exportVmd_frame lib options this =
     (let cam = camera this;
          targetPosition = nullish (target options) (0, 0, 0);
          tgt = (fst targetPosition, fst (snd targetPosition), snd (snd targetPosition));
          camPos = getWorldPosition lib cam;
          dm = nullish (distanceMultiplier options) 1;
          dist = - distanceTo camPos tgt * dm * converterOptions this;
          camQuat = getWorldQuaternion lib cam;
          euler = setFromQuaternion lib camQuat YXZ
      in \<lparr>cf_frameTime = nullish (frameTime options) DEFAULT_FRAME_TIME,
          cf_distance = dist,
          cf_position = (fst tgt, fst (snd tgt), snd (snd tgt)),
          cf_rotation = (fst euler, fst (snd euler), - snd (snd euler)),
          cf_curve = createDefaultCameraCurve,
          cf_viewAngle = Math_round (fov cam),
          cf_orthographic = DEFAULT_ORTHOGRAPHIC\<rparr>)"

text \<open>\<^verbatim>\<open>exportVmd\<close> assigns to no field of the converter; the converter is returned beside
  the result to say so.\<close>
definition exportVmd ::
  "three \<Rightarrow> float32 \<Rightarrow> ExportVmdOptions \<Rightarrow> FspyVmdConverter
     \<Rightarrow> (error + byte list) \<times> FspyVmdConverter" where
  "exportVmd lib enc options this =
     (case fspyData this of
        None \<Rightarrow> (Inl (FspyVmdConverterError FSPY_DATA_NOT_SET), this)
      | Some d \<Rightarrow> (writeCameraVmd enc [exportVmd_frame lib options this], this))"

section \<open>The layout of the file, as the specification gives it\<close>

text \<open>One frame: 61 bytes when the curve has its 24 entries.\<close>
definition frame_bytes :: "float32 \<Rightarrow> CameraFrame \<Rightarrow> byte list" where
  "frame_bytes enc frame =
     le32 (ToUint32 (cf_frameTime frame))
     @ le32 (enc (cf_distance frame))
     @ le32 (enc (fst (cf_position frame)))
     @ le32 (enc (fst (snd (cf_position frame))))
     @ le32 (enc (snd (snd (cf_position frame))))
     @ le32 (enc (fst (cf_rotation frame)))
     @ le32 (enc (fst (snd (cf_rotation frame))))
     @ le32 (enc (snd (snd (cf_rotation frame))))
     @ map ToUint8 (cf_curve frame)
     @ le32 (ToUint32 (cf_viewAngle frame))
     @ [ToUint8 (cf_orthographic frame)]"

definition signature_bytes :: "byte list" where
  "signature_bytes = map of_char ''Vocaloid Motion Data 0002'' @ replicate 5 0"

definition vmd_bytes :: "float32 \<Rightarrow> CameraFrame list \<Rightarrow> byte list" where
  "vmd_bytes enc frames =
     signature_bytes
     @ (CAMERA_MODEL_NAME_SJIS @ replicate 8 0)
     @ le32 0
     @ le32 0
     @ le32 (of_nat (length frames))
     @ concat (map (frame_bytes enc) frames)
     @ le32 0 @ le32 0 @ le32 0"

text \<open>Reading a little-endian 32-bit field at an offset of a buffer.\<close>
definition getUint32 :: "byte list \<Rightarrow> nat \<Rightarrow> 32 word" where
  "getUint32 buf off =
     ucast (buf ! off) OR push_bit 8 (ucast (buf ! (off + 1)))
     OR push_bit 16 (ucast (buf ! (off + 2))) OR push_bit 24 (ucast (buf ! (off + 3)))"

section \<open>The world-space getters, with their effect on the camera\<close>

text \<open>
  In three.js \<^verbatim>\<open>Object3D.getWorldPosition\<close> and \<^verbatim>\<open>Object3D.getWorldQuaternion\<close> first call
  \<^verbatim>\<open>updateWorldMatrix(true, false)\<close> on the object, which may rewrite its local and world
  matrices, and then read the world matrix: the position with
  \<^verbatim>\<open>Vector3.setFromMatrixPosition\<close>, the quaternion with \<^verbatim>\<open>Matrix4.decompose\<close>. The record
  \<open>three\<close> has the two getters as functions of the camera, which is what they return; here
  the camera as they leave it is returned too. What \<^verbatim>\<open>updateWorldMatrix\<close> computes depends on
  the scene graph around the camera and is a parameter.
\<close>
record three_world =
  updateWorldMatrix :: "PerspectiveCamera \<Rightarrow> PerspectiveCamera"
  setFromMatrixPosition :: "Matrix4 \<Rightarrow> Vector3"

definition Object3D_getWorldPosition ::
  "three_world \<Rightarrow> PerspectiveCamera \<Rightarrow> Vector3 \<times> PerspectiveCamera" where
  "Object3D_getWorldPosition world cam =
     (let cam' = updateWorldMatrix world cam
      in (setFromMatrixPosition world (matrixWorld cam'), cam'))"

definition Object3D_getWorldQuaternion ::
  "three \<Rightarrow> three_world \<Rightarrow> PerspectiveCamera \<Rightarrow> Quaternion \<times> PerspectiveCamera" where
  "Object3D_getWorldQuaternion lib world cam =
     (let cam' = updateWorldMatrix world cam
      in (fst (snd (decompose lib (matrixWorld cam'))), cam'))"

text \<open>The library with its two getters read off the ones above.\<close>
definition getters_of :: "three \<Rightarrow> three_world \<Rightarrow> three" where
  "getters_of lib world =
     lib\<lparr>getWorldPosition := (\<lambda>cam. fst (Object3D_getWorldPosition world cam)),
         getWorldQuaternion := (\<lambda>cam. fst (Object3D_getWorldQuaternion lib world cam))\<rparr>"

text \<open>
  \<^verbatim>\<open>exportVmd\<close> once more, statement by statement, with the camera threaded through the two
  getters: \<open>cam1\<close> is the camera after \<^verbatim>\<open>getWorldPosition\<close>, \<open>cam2\<close> after
  \<^verbatim>\<open>getWorldQuaternion\<close>, and \<^verbatim>\<open>camera.fov\<close> is read last. The converter is returned as the
  call leaves it.
\<close>
definition exportVmd_threaded ::
  "three \<Rightarrow> three_world \<Rightarrow> float32 \<Rightarrow> ExportVmdOptions \<Rightarrow> FspyVmdConverter
     \<Rightarrow> (error + byte list) \<times> FspyVmdConverter" where
  "exportVmd_threaded lib world enc options this =
     (case fspyData this of
        None \<Rightarrow> (Inl (FspyVmdConverterError FSPY_DATA_NOT_SET), this)
      | Some d \<Rightarrow>
          (let cam = camera this;
               targetPosition = nullish (target options) (0, 0, 0);
               tgt = (fst targetPosition, fst (snd targetPosition), snd (snd targetPosition));
               (camPos, cam1) = Object3D_getWorldPosition world cam;
               dm = nullish (distanceMultiplier options) 1;
               dist = - distanceTo camPos tgt * dm * converterOptions this;
               (camQuat, cam2) = Object3D_getWorldQuaternion lib world cam1;
               euler = setFromQuaternion lib camQuat YXZ;
               cameraFrame =
                 \<lparr>cf_frameTime = nullish (frameTime options) DEFAULT_FRAME_TIME,
                  cf_distance = dist,
                  cf_position = (fst tgt, fst (snd tgt), snd (snd tgt)),
                  cf_rotation = (fst euler, fst (snd euler), - snd (snd euler)),
                  cf_curve = createDefaultCameraCurve,
                  cf_viewAngle = Math_round (fov cam2),
                  cf_orthographic = DEFAULT_ORTHOGRAPHIC\<rparr>
           in (writeCameraVmd enc [cameraFrame], this\<lparr>camera := cam2\<rparr>)))"

section \<open>Concrete inputs\<close>

text \<open>
  The examples below run the converter on a camera made as in the README,
  \<^verbatim>\<open>new THREE.PerspectiveCamera(75, 16 / 9, 0.1, 2000)\<close>, with a stand-in for the
  library that places the camera at the world position \<open>(0, 0, 10)\<close>, turned half a turn
  about its Z axis. The stand-in for the binary32 encoding is the zero pattern, the
  encoding of \<open>0.0\<close>, the one number that the example frame holds in its float fields;
  the theorems hold for every encoding.
\<close>

definition identity4 :: Matrix4 where
  "identity4 = map Some [1, 0, 0, 0, 0, 1, 0, 0, 0, 0, 1, 0, 0, 0, 0, 1]"

definition example_three :: three where
  "example_three =
     \<lparr>makePerspective = (\<lambda>cam. identity4),
      decompose = (\<lambda>m. ((0, 0, 10), (0, 0, 1, 0), (1, 1, 1))),
      compose = (\<lambda>p q s. identity4),
      updateMatrixWorld = (\<lambda>cam. cam),
      getWorldPosition = (\<lambda>cam. (0, 0, 10)),
      getWorldQuaternion = (\<lambda>cam. (0, 0, 1, 0)),
      setFromQuaternion = (\<lambda>q order. (0, 0, pi))\<rparr>"

definition example_float32 :: float32 where
  "example_float32 = (\<lambda>v. 0)"

definition example_camera :: PerspectiveCamera where
  "example_camera =
     \<lparr>fov = 75, aspect = Some (16 / 9), near = 1 / 10, far = 2000,
      projectionMatrix = identity4, matrixAutoUpdate = True,
      matrix = identity4, matrixWorld = identity4,
      position = (0, 0, 0), quaternion = (0, 0, 0, 1), scale = (1, 1, 1)\<rparr>"

definition example_fspy :: "real option list list \<Rightarrow> FspyData" where
  "example_fspy rs =
     \<lparr>principalPoint = (0, 0),
      viewTransform = \<lparr>rows = rs\<rparr>,
      cameraTransform = \<lparr>rows = rs\<rparr>,
      horizontalFieldOfView = 1,
      verticalFieldOfView = 1,
      vanishingPoints = [],
      vanishingPointAxes = [],
      relativeFocalLength = 1,
      imageWidth = 1920,
      imageHeight = 1080\<rparr>"

definition rows_4x4 :: "real option list list" where
  "rows_4x4 = [[Some 1, Some 2, Some 3, Some 4],
               [Some 5, Some 6, Some 7, Some 8],
               [Some 9, Some 10, Some 11, Some 12],
               [Some 13, Some 14, Some 15, Some 16]]"

definition rows_3x4 :: "real option list list" where
  "rows_3x4 = [[Some 1, Some 2, Some 3, Some 4],
               [Some 5, Some 6, Some 7, Some 8],
               [Some 9, Some 10, Some 11, Some 12]]"

definition rows_short_row :: "real option list list" where
  "rows_short_row = [[Some 1, Some 2, Some 3, Some 4],
                     [Some 5, Some 6, Some 7],
                     [Some 9, Some 10, Some 11, Some 12],
                     [Some 13, Some 14, Some 15, Some 16]]"

definition rows_hole :: "real option list list" where
  "rows_hole = [[Some 1, Some 2, Some 3, Some 4],
                [Some 5, Some 6, None, Some 8],
                [Some 9, Some 10, Some 11, Some 12],
                [Some 13, Some 14, Some 15, Some 16]]"

definition no_options :: ExportVmdOptions where
  "no_options = \<lparr>distanceMultiplier = None, target = None, frameTime = None\<rparr>"

definition example_converter :: FspyVmdConverter where
  "example_converter = new_FspyVmdConverter example_camera None"

text \<open>The example converter after a calibration with a 4 by 4 matrix has been applied.\<close>
definition applied_converter :: FspyVmdConverter where
  "applied_converter =
     snd (applyFSpyToCamera example_three (example_fspy rows_4x4) None example_converter)"

text \<open>
  A camera without a parent whose world matrix is out of date: \<^verbatim>\<open>updateWorldMatrix\<close> copies
  the local matrix into it. The converter holds a record; the local matrix of its camera
  is a translation to \<open>(0, 0, 10)\<close>, the world matrix is still the identity. The position
  is read from elements 12 to 14 of the world matrix.
\<close>
definition element_or_zero :: "Matrix4 \<Rightarrow> nat \<Rightarrow> real" where
  "element_or_zero m i = (case js_index m i of Some (Some v) \<Rightarrow> v | _ \<Rightarrow> 0)"

definition example_world :: three_world where
  "example_world =
     \<lparr>updateWorldMatrix = (\<lambda>cam. cam\<lparr>matrixWorld := matrix cam\<rparr>),
      setFromMatrixPosition =
        (\<lambda>m. (element_or_zero m 12, element_or_zero m 13, element_or_zero m 14))\<rparr>"

definition translation_z10 :: Matrix4 where
  "translation_z10 = map Some [1, 0, 0, 0, 0, 1, 0, 0, 0, 0, 1, 0, 0, 0, 10, 1]"

definition stale_converter :: FspyVmdConverter where
  "stale_converter =
     \<lparr>camera = example_camera\<lparr>matrix := translation_z10\<rparr>,
      fspyData = Some (example_fspy rows_4x4),
      converterOptions = 5\<rparr>"

definition example_frame :: CameraFrame where
  "example_frame =
     \<lparr>cf_frameTime = 0, cf_distance = 0, cf_position = (0, 0, 0), cf_rotation = (0, 0, 0),
      cf_curve = createDefaultCameraCurve, cf_viewAngle = 30, cf_orthographic = 0\<rparr>"

section \<open>Notions used in the proofs\<close>

text \<open>What \<^verbatim>\<open>rows[rowIndex]?.[colIndex]\<close> reads.\<close>
definition cell :: "real option list list \<Rightarrow> nat \<Rightarrow> nat \<Rightarrow> real option" where
  "cell rs r c = Option.bind (Option.bind (js_index rs r) (\<lambda>row. js_index row c)) id"

text \<open>The writer after the bytes \<open>pre\<close> have been written, with \<open>n\<close> zero bytes left.\<close>
definition pending :: "byte list \<Rightarrow> nat \<Rightarrow> writer" where
  "pending pre n = \<lparr>buffer = pre @ replicate n 0, offset = length pre\<rparr>"

text \<open>A write that appends \<open>bs\<close> whenever that much room is left.\<close>
definition emits :: "writing \<Rightarrow> byte list \<Rightarrow> bool" where
  "emits f bs \<longleftrightarrow>
     (\<forall>pre n. length bs \<le> n \<longrightarrow> f (pending pre n) = Inr (pending (pre @ bs) (n - length bs)))"

text \<open>The bytes before the camera-frame count.\<close>
definition header58 :: "byte list" where
  "header58 = signature_bytes @ (CAMERA_MODEL_NAME_SJIS @ replicate 8 0) @ le32 0 @ le32 0"

section \<open>The two nested iterations of the matrix conversion\<close>

lemma fillRow_fails:
  "colIndex \<le> c \<Longrightarrow> c < 4 \<Longrightarrow> cell rs r c = None \<Longrightarrow>
   fillRow rs r colIndex arr = Inl (FspyVmdConverterError INVALID_CAMERA_TRANSFORM_VALUE)"
proof (induction rs r colIndex arr rule: fillRow.induct)
  case (1 rs rowIndex colIndex arr)
  show ?case
  proof (cases "cell rs rowIndex colIndex")
    case None
    with 1 show ?thesis
      by (subst fillRow.simps) (simp add: cell_def MATRIX_SIZE_def)
  next
    case (Some v)
    with 1 have "colIndex \<noteq> c" by auto
    with 1 have le: "colIndex + 1 \<le> c" by simp
    have "fillRow rs rowIndex (colIndex + 1) (arr[colIndex * MATRIX_SIZE + rowIndex := Some v])
          = Inl (FspyVmdConverterError INVALID_CAMERA_TRANSFORM_VALUE)"
      using 1 Some le by (intro "1.IH") (auto simp: cell_def MATRIX_SIZE_def)
    with 1 Some show ?thesis
      by (subst fillRow.simps) (simp add: cell_def MATRIX_SIZE_def)
  qed
qed

lemma fillRow_fills:
  "r < 4 \<Longrightarrow> (\<forall>c. colIndex \<le> c \<and> c < 4 \<longrightarrow> cell rs r c \<noteq> None) \<Longrightarrow>
   \<exists>arr'. fillRow rs r colIndex arr = Inr arr' \<and> length arr' = length arr \<and>
     (\<forall>i < length arr. arr' ! i =
        (if i mod 4 = r \<and> colIndex \<le> i div 4 \<and> i div 4 < 4 then cell rs r (i div 4) else arr ! i))"
proof (induction rs r colIndex arr rule: fillRow.induct)
  case (1 rs rowIndex colIndex arr)
  show ?case
  proof (cases "colIndex < 4")
    case False
    then show ?thesis
      by (subst fillRow.simps) (auto simp: MATRIX_SIZE_def)
  next
    case True
    with 1 obtain v where v: "cell rs rowIndex colIndex = Some v" by auto
    let ?arr = "arr[colIndex * MATRIX_SIZE + rowIndex := Some v]"
    have "\<exists>arr'. fillRow rs rowIndex (colIndex + 1) ?arr = Inr arr' \<and> length arr' = length ?arr \<and>
     (\<forall>i < length ?arr. arr' ! i =
        (if i mod 4 = rowIndex \<and> colIndex + 1 \<le> i div 4 \<and> i div 4 < 4 then cell rs rowIndex (i div 4) else ?arr ! i))"
      using 1 True v by (intro "1.IH") (auto simp: cell_def MATRIX_SIZE_def)
    then obtain arr' where a: "fillRow rs rowIndex (colIndex + 1) ?arr = Inr arr'" "length arr' = length arr"
      and b: "\<And>i. i < length arr \<Longrightarrow> arr' ! i =
        (if i mod 4 = rowIndex \<and> colIndex + 1 \<le> i div 4 \<and> i div 4 < 4 then cell rs rowIndex (i div 4) else ?arr ! i)"
      by auto
    have c: "fillRow rs rowIndex colIndex arr = Inr arr'"
      using True v a by (subst fillRow.simps) (simp add: cell_def MATRIX_SIZE_def)
    have d: "arr' ! i =
        (if i mod 4 = rowIndex \<and> colIndex \<le> i div 4 \<and> i div 4 < 4 then cell rs rowIndex (i div 4) else arr ! i)"
      if "i < length arr" for i
    proof (cases "i = colIndex * 4 + rowIndex")
      case True
      with 1(2) have "i mod 4 = rowIndex" "i div 4 = colIndex" by auto
      with b[OF that] True that v \<open>colIndex < 4\<close> show ?thesis by (simp add: MATRIX_SIZE_def)
    next
      case False
      then have "\<not> (i mod 4 = rowIndex \<and> i div 4 = colIndex)" by auto
      with b[OF that] False that show ?thesis by (auto simp: MATRIX_SIZE_def)
    qed
    show ?thesis using a(2) c d by blast
  qed
qed

lemma fillRow_error:
  "fillRow rs r colIndex arr = Inl e \<Longrightarrow> e = FspyVmdConverterError INVALID_CAMERA_TRANSFORM_VALUE"
proof (induction rs r colIndex arr rule: fillRow.induct)
  case (1 rs rowIndex colIndex arr)
  from "1.prems" show ?case
    by (subst (asm) fillRow.simps) (auto split: if_splits option.splits dest: "1.IH")
qed

lemma fillRows_fails:
  "rowIndex \<le> r \<Longrightarrow> r < 4 \<Longrightarrow> c < 4 \<Longrightarrow> cell rs r c = None \<Longrightarrow>
   fillRows rs rowIndex arr = Inl (FspyVmdConverterError INVALID_CAMERA_TRANSFORM_VALUE)"
proof (induction rs rowIndex arr rule: fillRows.induct)
  case (1 rs rowIndex arr)
  show ?case
  proof (cases "fillRow rs rowIndex 0 arr")
    case (Inl e)
    then have "e = FspyVmdConverterError INVALID_CAMERA_TRANSFORM_VALUE"
      by (rule fillRow_error)
    with Inl 1(2,3) show ?thesis
      by (subst fillRows.simps) (simp add: MATRIX_SIZE_def)
  next
    case (Inr arr')
    have "rowIndex \<noteq> r"
    proof
      assume "rowIndex = r"
      with 1(4,5) have "fillRow rs rowIndex 0 arr
                        = Inl (FspyVmdConverterError INVALID_CAMERA_TRANSFORM_VALUE)"
        by (intro fillRow_fails [of 0 c]) auto
      with Inr show False by simp
    qed
    with 1(2,3) have lt: "rowIndex + 1 \<le> r" "rowIndex < 4" by auto
    have "fillRows rs (rowIndex + 1) arr'
          = Inl (FspyVmdConverterError INVALID_CAMERA_TRANSFORM_VALUE)"
      using 1 lt Inr by (intro "1.IH") (auto simp: MATRIX_SIZE_def)
    with Inr lt show ?thesis
      by (subst fillRows.simps) (simp add: MATRIX_SIZE_def)
  qed
qed

lemma fillRows_error:
  "fillRows rs rowIndex arr = Inl e \<Longrightarrow> e = FspyVmdConverterError INVALID_CAMERA_TRANSFORM_VALUE"
proof (induction rs rowIndex arr rule: fillRows.induct)
  case (1 rs rowIndex arr)
  from "1.prems" show ?case
    by (subst (asm) fillRows.simps)
       (auto split: if_splits sum.splits dest: "1.IH" fillRow_error)
qed

lemma fillRows_fills:
  "(\<forall>r c. rowIndex \<le> r \<and> r < 4 \<and> c < 4 \<longrightarrow> cell rs r c \<noteq> None) \<Longrightarrow>
   \<exists>arr'. fillRows rs rowIndex arr = Inr arr' \<and> length arr' = length arr \<and>
     (\<forall>i < length arr. arr' ! i =
        (if rowIndex \<le> i mod 4 \<and> i div 4 < 4 then cell rs (i mod 4) (i div 4) else arr ! i))"
proof (induction rs rowIndex arr rule: fillRows.induct)
  case (1 rs rowIndex arr)
  show ?case
  proof (cases "rowIndex < 4")
    case False
    then have "\<not> (rowIndex \<le> i mod 4)" for i
      using mod_less_divisor[of 4 i] by linarith
    with False show ?thesis
      by (subst fillRows.simps) (simp add: MATRIX_SIZE_def)
  next
    case True
    with 1(2) have "\<forall>c. 0 \<le> c \<and> c < 4 \<longrightarrow> cell rs rowIndex c \<noteq> None" by auto
    from fillRow_fills[OF True this, of arr]
    obtain arr1 where a: "fillRow rs rowIndex 0 arr = Inr arr1" "length arr1 = length arr"
      and b: "\<And>i. i < length arr \<Longrightarrow> arr1 ! i =
        (if i mod 4 = rowIndex \<and> i div 4 < 4 then cell rs rowIndex (i div 4) else arr ! i)"
      by auto
    have "\<exists>arr'. fillRows rs (rowIndex + 1) arr1 = Inr arr' \<and> length arr' = length arr1 \<and>
     (\<forall>i < length arr1. arr' ! i =
        (if rowIndex + 1 \<le> i mod 4 \<and> i div 4 < 4 then cell rs (i mod 4) (i div 4) else arr1 ! i))"
      using 1(2) True a by (intro "1.IH") (auto simp: MATRIX_SIZE_def)
    then obtain arr' where c: "fillRows rs (rowIndex + 1) arr1 = Inr arr'" "length arr' = length arr"
      and d: "\<And>i. i < length arr \<Longrightarrow> arr' ! i =
        (if rowIndex + 1 \<le> i mod 4 \<and> i div 4 < 4 then cell rs (i mod 4) (i div 4) else arr1 ! i)"
      using a(2) by auto
    have e: "fillRows rs rowIndex arr = Inr arr'"
      using True a c by (subst fillRows.simps) (simp add: MATRIX_SIZE_def)
    have "arr' ! i =
        (if rowIndex \<le> i mod 4 \<and> i div 4 < 4 then cell rs (i mod 4) (i div 4) else arr ! i)"
      if "i < length arr" for i
      using d[OF that] b[OF that] by (cases "i mod 4 = rowIndex") auto
    with c(2) e show ?thesis by blast
  qed
qed

section \<open>The writer against the layout\<close>

lemma put_emits: "emits (put bs (length bs)) bs"
  unfolding emits_def
proof (intro allI impI)
  fix pre n assume "length bs \<le> n"
  then have "replicate n (0::byte) = replicate (length bs) 0 @ replicate (n - length bs) 0"
    by (simp flip: replicate_add)
  then show "put bs (length bs) (pending pre n) = Inr (pending (pre @ bs) (n - length bs))"
    using \<open>length bs \<le> n\<close> by (simp add: put_def typed_set_def pending_def)
qed

lemma seqW_emits:
  "list_all2 emits fs bss \<Longrightarrow> emits (seqW fs) (concat bss)"
proof (induction fs bss rule: list_all2_induct)
  case Nil
  show ?case by (simp add: emits_def)
next
  case (Cons f fs bs bss)
  show ?case
    unfolding emits_def
  proof (intro allI impI)
    fix pre n assume "length (concat (bs # bss)) \<le> n"
    then have le: "length bs \<le> n" "length (concat bss) \<le> n - length bs" by auto
    from Cons(1) le(1) have "f (pending pre n) = Inr (pending (pre @ bs) (n - length bs))"
      by (simp add: emits_def)
    moreover from Cons(3) le(2)
    have "seqW fs (pending (pre @ bs) (n - length bs))
          = Inr (pending ((pre @ bs) @ concat bss) (n - length bs - length (concat bss)))"
      unfolding emits_def by blast
    ultimately show "seqW (f # fs) (pending pre n)
          = Inr (pending (pre @ concat (bs # bss)) (n - length (concat (bs # bss))))"
      by simp
  qed
qed

lemma le32_length: "length (le32 v) = 4"
  by (simp add: le32_def)

lemma writeUint32_emits: "emits (writeUint32 v) (le32 (ToUint32 v))"
  using put_emits[of "le32 (ToUint32 v)"] by (simp add: writeUint32_def VMD_UINT32_SIZE_def le32_length)

lemma writeFloat32_emits: "emits (writeFloat32 enc v) (le32 (enc v))"
  using put_emits[of "le32 (enc v)"] by (simp add: writeFloat32_def VMD_UINT32_SIZE_def le32_length)

lemma writeUint8_emits: "emits (writeUint8 v) [ToUint8 v]"
  using put_emits[of "[ToUint8 v]"] by (simp add: writeUint8_def)

lemma writeBytes_emits:
  "emits (writeBytes bytes len) (take len bytes @ replicate (len - length bytes) 0)"
proof -
  let ?p = "take len bytes @ replicate (len - length (take len bytes)) 0"
  have "length ?p = len" by simp
  with put_emits[of ?p] have "emits (put ?p len) ?p" by simp
  moreover have "len - length (take len bytes) = len - length bytes" by simp
  ultimately show ?thesis by (simp add: writeBytes_def Let_def)
qed

lemma fold_update_upt:
  "n \<le> length xs \<Longrightarrow> fold (\<lambda>i ys. ys[i := g i]) [0..<n] xs = map g [0..<n] @ drop n xs"
proof (induction n)
  case 0
  show ?case by simp
next
  case (Suc n)
  then have "fold (\<lambda>i ys. ys[i := g i]) [0..<Suc n] xs = (map g [0..<n] @ drop n xs)[n := g n]"
    by simp
  also have "\<dots> = map g [0..<n] @ (drop n xs)[0 := g n]"
    by (simp add: list_update_append)
  also have "(drop n xs)[0 := g n] = g n # drop (Suc n) xs"
    using Suc.prems by (cases "drop n xs") (auto simp: drop_Suc drop_tl)
  finally show ?case by simp
qed

lemma asciiBytes_eq:
  "asciiBytes str len =
     map (\<lambda>c. of_char c AND ASCII_MASK) (take len str) @ replicate (len - length str) 0"
proof -
  let ?n = "min (length str) len"
  have "asciiBytes str len = map (\<lambda>i. of_char (str ! i) AND ASCII_MASK) [0..<?n] @ drop ?n (replicate len 0)"
    unfolding asciiBytes_def by (rule fold_update_upt) simp
  also have "map (\<lambda>i. of_char (str ! i) AND ASCII_MASK) [0..<?n] = map (\<lambda>c. of_char c AND ASCII_MASK) (take len str)"
    by (rule nth_equalityI) auto
  finally show ?thesis by simp
qed

lemma signature_ascii: "asciiBytes ''Vocaloid Motion Data 0002'' 30 = signature_bytes"
  by (simp add: asciiBytes_eq signature_bytes_def ASCII_MASK_def)


lemma writeFrame_emits: "emits (writeFrame enc frame) (frame_bytes enc frame)"
proof -
  let ?head = "[le32 (ToUint32 (cf_frameTime frame)),
            le32 (enc (cf_distance frame)),
            le32 (enc (fst (cf_position frame))),
            le32 (enc (fst (snd (cf_position frame)))),
            le32 (enc (snd (snd (cf_position frame)))),
            le32 (enc (fst (cf_rotation frame))),
            le32 (enc (fst (snd (cf_rotation frame)))),
            le32 (enc (snd (snd (cf_rotation frame))))]"
  let ?curve = "map (\<lambda>c. [ToUint8 c]) (cf_curve frame)"
  let ?tail = "[le32 (ToUint32 (cf_viewAngle frame)), [ToUint8 (cf_orthographic frame)]]"
  have "list_all2 emits (map writeUint8 (cf_curve frame)) ?curve"
    by (simp add: list_all2_conv_all_nth writeUint8_emits)
  then have "emits (writeFrame enc frame) (concat (?head @ ?curve @ ?tail))"
    unfolding writeFrame_def
    by (intro seqW_emits list_all2_appendI)
       (simp_all add: writeUint32_emits writeFloat32_emits writeUint8_emits)
  moreover have "concat ?curve = map ToUint8 (cf_curve frame)"
    by simp
  ultimately show ?thesis
    by (simp add: frame_bytes_def)
qed

lemma frame_bytes_length: "length (frame_bytes enc frame) = 37 + length (cf_curve frame)"
  by (simp add: frame_bytes_def le32_length)

lemma frames_bytes_length:
  "\<forall>f \<in> set frames. length (cf_curve f) = 24 \<Longrightarrow>
   length (concat (map (frame_bytes enc) frames)) = 61 * length frames"
  by (induction frames) (simp_all add: frame_bytes_length)

lemma vmd_bytes_length:
  "\<forall>f \<in> set frames. length (cf_curve f) = 24 \<Longrightarrow>
   length (vmd_bytes enc frames) = 30 + 20 + 24 + 61 * length frames"
  by (simp add: vmd_bytes_def signature_bytes_def CAMERA_MODEL_NAME_SJIS_def le32_length
      frames_bytes_length)

lemma js_trunc_of_nat: "js_trunc (real n) = int n"
  by (simp add: js_trunc_def)

lemma ToUint32_of_nat: "ToUint32 (real n) = of_nat n"
  by (simp add: ToUint32_def js_trunc_of_nat)

lemma ToUint32_zero: "ToUint32 0 = 0"
  using ToUint32_of_nat[of 0] by simp

lemma writeCameraVmd_emits:
  "emits (seqW ([writeAscii ''Vocaloid Motion Data 0002'' VMD_HEADER_SIZE,
                     writeBytes CAMERA_MODEL_NAME_SJIS VMD_MODEL_NAME_SIZE,
                     writeUint32 0,
                     writeUint32 0,
                     writeUint32 (real (length cameraFrames))]
                    @ map (writeFrame enc) cameraFrames
                    @ [writeUint32 0, writeUint32 0, writeUint32 0]))
         (vmd_bytes enc cameraFrames)"
proof -
  let ?head = "[signature_bytes, CAMERA_MODEL_NAME_SJIS @ replicate 8 0, le32 0, le32 0,
                le32 (of_nat (length cameraFrames))]"
  let ?frames = "map (frame_bytes enc) cameraFrames"
  let ?tail = "[le32 0, le32 0, le32 (0 :: 32 word)]"
  have sig: "emits (writeAscii ''Vocaloid Motion Data 0002'' VMD_HEADER_SIZE) signature_bytes"
    using put_emits[of signature_bytes]
    by (simp add: writeAscii_def VMD_HEADER_SIZE_def signature_ascii) (simp add: signature_bytes_def)
  have name: "emits (writeBytes CAMERA_MODEL_NAME_SJIS VMD_MODEL_NAME_SIZE)
                (CAMERA_MODEL_NAME_SJIS @ replicate 8 0)"
    using writeBytes_emits[of CAMERA_MODEL_NAME_SJIS 20]
    by (simp add: VMD_MODEL_NAME_SIZE_def) (simp add: CAMERA_MODEL_NAME_SJIS_def)
  have zero: "emits (writeUint32 0) (le32 0)"
    using writeUint32_emits[of 0] by (simp add: ToUint32_zero)
  have count: "emits (writeUint32 (real (length cameraFrames))) (le32 (of_nat (length cameraFrames)))"
    using writeUint32_emits[of "real (length cameraFrames)"] by (simp add: ToUint32_of_nat)
  have "list_all2 emits (map (writeFrame enc) cameraFrames) ?frames"
    by (simp add: list_all2_conv_all_nth writeFrame_emits)
  then have "emits (seqW ([writeAscii ''Vocaloid Motion Data 0002'' VMD_HEADER_SIZE,
                     writeBytes CAMERA_MODEL_NAME_SJIS VMD_MODEL_NAME_SIZE,
                     writeUint32 0,
                     writeUint32 0,
                     writeUint32 (real (length cameraFrames))]
                    @ map (writeFrame enc) cameraFrames
                    @ [writeUint32 0, writeUint32 0, writeUint32 0]))
         (concat (?head @ ?frames @ ?tail))"
    by (intro seqW_emits list_all2_appendI) (simp_all add: sig name zero count)
  then show ?thesis
    by (simp add: vmd_bytes_def)
qed

lemma writeCameraVmd_refines:
  assumes "\<forall>f \<in> set cameraFrames. length (cf_curve f) = 24"
  shows "writeCameraVmd enc cameraFrames = Inr (vmd_bytes enc cameraFrames)"
proof -
  let ?n = "30 + 20 + 24 + 61 * length cameraFrames"
  have len: "length (vmd_bytes enc cameraFrames) = ?n"
    using assms by (rule vmd_bytes_length)
  have start: "\<lparr>buffer = replicate ?n 0, offset = 0\<rparr> = pending [] ?n"
    by (simp add: pending_def)
  from writeCameraVmd_emits[of cameraFrames enc] len
  have "seqW ([writeAscii ''Vocaloid Motion Data 0002'' VMD_HEADER_SIZE,
                     writeBytes CAMERA_MODEL_NAME_SJIS VMD_MODEL_NAME_SIZE,
                     writeUint32 0,
                     writeUint32 0,
                     writeUint32 (real (length cameraFrames))]
                    @ map (writeFrame enc) cameraFrames
                    @ [writeUint32 0, writeUint32 0, writeUint32 0]) (pending [] ?n)
        = Inr (pending (vmd_bytes enc cameraFrames) 0)"
    unfolding emits_def by (metis append_Nil diff_self_eq_0 le_refl)
  then show ?thesis
    unfolding writeCameraVmd_def Let_def
    by (simp add: VMD_HEADER_SIZE_def VMD_MODEL_NAME_SIZE_def VMD_UINT32_SIZE_def
        VMD_COUNT_FIELDS_def VMD_CAMERA_FRAME_SIZE_def start mult.commute)
       (simp add: pending_def)
qed

lemma getUint32_le32: "getUint32 (pre @ le32 v @ post) (length pre) = v"
proof -
  have "ucast (ucast v :: byte) OR push_bit 8 (ucast (ucast (drop_bit 8 v) :: byte))
        OR push_bit 16 (ucast (ucast (drop_bit 16 v) :: byte))
        OR push_bit 24 (ucast (ucast (drop_bit 24 v) :: byte)) = v"
  proof (rule bit_word_eqI)
    fix n assume "n < LENGTH(32)"
    then have n: "n < 32" by simp
    consider "n < 8" | "8 \<le> n" "n < 16" | "16 \<le> n" "n < 24" | "24 \<le> n" by linarith
    then show "bit (ucast (ucast v :: byte) OR push_bit 8 (ucast (ucast (drop_bit 8 v) :: byte))
        OR push_bit 16 (ucast (ucast (drop_bit 16 v) :: byte))
        OR push_bit 24 (ucast (ucast (drop_bit 24 v) :: byte)) :: 32 word) n = bit v n"
      using n by cases (auto simp: bit_simps)
  qed
  then show ?thesis
    by (simp add: getUint32_def le32_def nth_append)
qed

lemma vmd_bytes_count:
  "getUint32 (vmd_bytes enc frames) 58 = of_nat (length frames)"
proof -
  let ?pre = "signature_bytes @ (CAMERA_MODEL_NAME_SJIS @ replicate 8 0) @ le32 0 @ le32 0"
  let ?post = "concat (map (frame_bytes enc) frames) @ le32 0 @ le32 0 @ le32 0"
  have len: "length ?pre = 58"
    by (simp add: signature_bytes_def CAMERA_MODEL_NAME_SJIS_def le32_length)
  have eq: "vmd_bytes enc frames = ?pre @ le32 (of_nat (length frames)) @ ?post"
    by (simp add: vmd_bytes_def)
  have "getUint32 (?pre @ le32 (of_nat (length frames)) @ ?post) (length ?pre) = of_nat (length frames)"
    by (rule getUint32_le32)
  then show ?thesis
    by (simp only: len eq)
qed

lemma vmd_bytes_signature: "take 30 (vmd_bytes enc frames) = signature_bytes"
  by (simp add: vmd_bytes_def signature_bytes_def)

lemma vmd_bytes_54: "vmd_bytes enc frames ! 54 = 0"
  by (simp add: vmd_bytes_def signature_bytes_def CAMERA_MODEL_NAME_SJIS_def le32_def nth_append)

lemma vmd_bytes_58: "vmd_bytes enc [frame] ! 58 = 1"
  by (simp add: vmd_bytes_def signature_bytes_def CAMERA_MODEL_NAME_SJIS_def le32_def nth_append)

lemma createDefaultCameraCurve_eq:
  "createDefaultCameraCurve =
     [20, 107, 20, 107, 20, 107, 20, 107, 20, 107, 20, 107,
      20, 107, 20, 107, 20, 107, 20, 107, 20, 107, 20, 107]"
  by (simp add: createDefaultCameraCurve_def CAMERA_CURVE_PAIR_COUNT_def numeral_eq_Suc
      CAMERA_CURVE_START_def CAMERA_CURVE_END_def)

lemma createDefaultCameraCurve_length: "length createDefaultCameraCurve = 24"
  by (simp add: createDefaultCameraCurve_eq)

lemma example_frame_curve: "\<forall>f \<in> set [example_frame]. length (cf_curve f) = 24"
  by (simp add: example_frame_def createDefaultCameraCurve_length)

section \<open>Export before any calibration\<close>

text \<open>
  C5. For every camera state and every export option, \<^verbatim>\<open>exportVmd\<close> on a converter whose
  held record is \<^verbatim>\<open>null\<close> throws the typed error with code \<^verbatim>\<open>FSPY_DATA_NOT_SET\<close>; it
  returns no buffer, and the converter is as it was.
\<close>
theorem exportVmd_before_apply:
  "fspyData this = None \<Longrightarrow>
   exportVmd lib enc options this = (Inl (FspyVmdConverterError FSPY_DATA_NOT_SET), this)"
  by (simp add: exportVmd_def)

theorem exportVmd_before_apply_witness:
  "fspyData example_converter = None \<and>
   fst (exportVmd example_three example_float32 no_options example_converter)
     = Inl (FspyVmdConverterError FSPY_DATA_NOT_SET)"
  using exportVmd_before_apply [of example_converter example_three example_float32 no_options]
  by (simp add: example_converter_def new_FspyVmdConverter_def)

section \<open>The encoded file\<close>

text \<open>
  C2, as the claim states it, fails: in the 135 bytes of a single default frame the byte at
  offset 54 is the first byte of the morph-frame count, which is 0. The signature takes
  offsets 0 to 29, the model name 30 to 49, the bone-frame count 50 to 53, the morph-frame
  count 54 to 57, and the camera-frame count 58 to 61.
\<close>
theorem single_frame_offset_54_counterexample:
  "\<not> isl (writeCameraVmd example_float32 [example_frame]) \<and>
   length (projr (writeCameraVmd example_float32 [example_frame])) = 135 \<and>
   projr (writeCameraVmd example_float32 [example_frame]) ! 54 = 0 \<and>
   projr (writeCameraVmd example_float32 [example_frame]) ! 54 \<noteq> 1"
  using writeCameraVmd_refines [OF example_frame_curve, of example_float32]
    vmd_bytes_length [OF example_frame_curve, of example_float32]
    vmd_bytes_54 [of example_float32 "[example_frame]"]
  by simp

text \<open>
  C2, amended. Encoding a single frame with the default curve and \<open>frameTime = 0\<close> yields a
  buffer of exactly 30 + 20 + 24 + 61 = 135 bytes in which the byte at offset 58, the first
  byte of the little-endian camera-frame count, equals 1, and the count read there is 1;
  the byte at offset 54 is 0.
\<close>
theorem single_default_frame:
  assumes "cf_curve frame = createDefaultCameraCurve" and "cf_frameTime frame = 0"
  shows "\<exists>buf. writeCameraVmd enc [frame] = Inr buf \<and> length buf = 30 + 20 + 24 + 61 \<and>
           length buf = 135 \<and> buf ! 58 = 1 \<and> unat (getUint32 buf 58) = 1 \<and> buf ! 54 = 0"
proof -
  from assms(1) have c: "\<forall>f \<in> set [frame]. length (cf_curve f) = 24"
    by (simp add: createDefaultCameraCurve_length)
  have "writeCameraVmd enc [frame] = Inr (vmd_bytes enc [frame])"
    using c by (rule writeCameraVmd_refines)
  moreover have "length (vmd_bytes enc [frame]) = 135"
    using vmd_bytes_length [OF c, of enc] by simp
  moreover have "unat (getUint32 (vmd_bytes enc [frame]) 58) = 1"
    by (simp add: vmd_bytes_count)
  ultimately show ?thesis
    by (simp add: vmd_bytes_58 vmd_bytes_54)
qed

theorem single_default_frame_witness:
  "cf_curve example_frame = createDefaultCameraCurve \<and> cf_frameTime example_frame = 0 \<and>
   length (projr (writeCameraVmd example_float32 [example_frame])) = 135 \<and>
   projr (writeCameraVmd example_float32 [example_frame]) ! 58 = 1"
  using single_default_frame [of example_frame example_float32]
  by (auto simp: example_frame_def)

text \<open>
  C7. For every sequence of \<open>N\<close> camera frames (each with the 24 curve entries of its
  type), \<^verbatim>\<open>writeCameraVmd\<close> returns a buffer of exactly \<open>30 + 20 + 24 + 61 * N\<close> bytes; its
  first 30 bytes are the ASCII signature \<^verbatim>\<open>Vocaloid Motion Data 0002\<close> padded with zeros,
  and the camera-frame count read from the header is \<open>N\<close>. The count is a 32-bit field,
  and a JavaScript array has fewer than \<open>2 ^ 32\<close> elements.
\<close>
theorem writeCameraVmd_layout:
  assumes "\<forall>f \<in> set cameraFrames. length (cf_curve f) = 24"
  shows "\<exists>buf. writeCameraVmd enc cameraFrames = Inr buf \<and>
           length buf = 30 + 20 + 24 + 61 * length cameraFrames \<and>
           take 30 buf = map of_char ''Vocaloid Motion Data 0002'' @ replicate 5 0 \<and>
           getUint32 buf 58 = of_nat (length cameraFrames) \<and>
           (length cameraFrames < 2 ^ 32 \<longrightarrow> unat (getUint32 buf 58) = length cameraFrames)"
proof -
  have "writeCameraVmd enc cameraFrames = Inr (vmd_bytes enc cameraFrames)"
    using assms by (rule writeCameraVmd_refines)
  moreover have "length (vmd_bytes enc cameraFrames) = 30 + 20 + 24 + 61 * length cameraFrames"
    using assms by (rule vmd_bytes_length)
  moreover have "take 30 (vmd_bytes enc cameraFrames)
                 = map of_char ''Vocaloid Motion Data 0002'' @ replicate 5 0"
    by (simp only: vmd_bytes_signature signature_bytes_def)
  moreover have "unat (getUint32 (vmd_bytes enc cameraFrames) 58) = length cameraFrames"
    if "length cameraFrames < 2 ^ 32"
    using that by (simp add: vmd_bytes_count unat_of_nat)
  ultimately show ?thesis
    by (simp add: vmd_bytes_count)
qed

theorem writeCameraVmd_layout_witness:
  "length (cf_curve example_frame) = 24 \<and> length [example_frame, example_frame] < 2 ^ 32 \<and>
   length (projr (writeCameraVmd example_float32 [example_frame, example_frame])) = 196 \<and>
   take 30 (projr (writeCameraVmd example_float32 [example_frame, example_frame]))
     = map of_char ''Vocaloid Motion Data 0002'' @ replicate 5 0 \<and>
   unat (getUint32 (projr (writeCameraVmd example_float32 [example_frame, example_frame])) 58) = 2"
  using writeCameraVmd_layout [of "[example_frame, example_frame]" example_float32]
  by (auto simp: example_frame_def createDefaultCameraCurve_length)

lemma getUint32_at:
  "buf = pre @ le32 v @ post \<Longrightarrow> length pre = k \<Longrightarrow> getUint32 buf k = v"
  using getUint32_le32 [of pre v post] by simp

lemma exportVmd_frame_curve:
  "\<forall>f \<in> set [exportVmd_frame lib options this]. length (cf_curve f) = 24"
  by (simp add: exportVmd_frame_def Let_def createDefaultCameraCurve_length)

lemma exportVmd_set:
  "fspyData this \<noteq> None \<Longrightarrow>
   exportVmd lib enc options this = (Inr (vmd_bytes enc [exportVmd_frame lib options this]), this)"
  using writeCameraVmd_refines [OF exportVmd_frame_curve, of enc lib options this]
  by (auto simp: exportVmd_def)

lemma header58_length: "length header58 = 58"
  by (simp add: header58_def signature_bytes_def CAMERA_MODEL_NAME_SJIS_def le32_length)

lemma single_frame_distance:
  "getUint32 (vmd_bytes enc [frame]) 66 = enc (cf_distance frame)"
proof (rule getUint32_at)
  show "vmd_bytes enc [frame] =
        (header58 @ le32 1 @ le32 (ToUint32 (cf_frameTime frame))) @ le32 (enc (cf_distance frame))
        @ (le32 (enc (fst (cf_position frame)))
     @ le32 (enc (fst (snd (cf_position frame))))
     @ le32 (enc (snd (snd (cf_position frame))))
     @ le32 (enc (fst (cf_rotation frame)))
     @ le32 (enc (fst (snd (cf_rotation frame))))
     @ le32 (enc (snd (snd (cf_rotation frame))))
     @ map ToUint8 (cf_curve frame)
     @ le32 (ToUint32 (cf_viewAngle frame))
     @ [ToUint8 (cf_orthographic frame)] @ le32 0 @ le32 0 @ le32 0)"
    by (simp add: vmd_bytes_def frame_bytes_def header58_def)
  show "length (header58 @ le32 1 @ le32 (ToUint32 (cf_frameTime frame))) = 66"
    by (simp add: header58_length le32_length)
qed

lemma single_frame_rotation:
  "getUint32 (vmd_bytes enc [frame]) 82 = enc (fst (cf_rotation frame))"
  "getUint32 (vmd_bytes enc [frame]) 86 = enc (fst (snd (cf_rotation frame)))"
  "getUint32 (vmd_bytes enc [frame]) 90 = enc (snd (snd (cf_rotation frame)))"
proof -
  let ?pre = "header58 @ le32 1 @ le32 (ToUint32 (cf_frameTime frame))
     @ le32 (enc (cf_distance frame))
     @ le32 (enc (fst (cf_position frame)))
     @ le32 (enc (fst (snd (cf_position frame))))
     @ le32 (enc (snd (snd (cf_position frame))))"
  let ?rx = "le32 (enc (fst (cf_rotation frame)))"
  let ?ry = "le32 (enc (fst (snd (cf_rotation frame))))"
  let ?rz = "le32 (enc (snd (snd (cf_rotation frame))))"
  let ?post = "map ToUint8 (cf_curve frame)
     @ le32 (ToUint32 (cf_viewAngle frame))
     @ [ToUint8 (cf_orthographic frame)] @ le32 0 @ le32 0 @ le32 0"
  have len: "length ?pre = 82"
    by (simp add: header58_length le32_length)
  have eq: "vmd_bytes enc [frame] = ?pre @ ?rx @ ?ry @ ?rz @ ?post"
    by (simp add: vmd_bytes_def frame_bytes_def header58_def)
  show "getUint32 (vmd_bytes enc [frame]) 82 = enc (fst (cf_rotation frame))"
    by (rule getUint32_at [where pre = ?pre and post = "?ry @ ?rz @ ?post"])
       (simp_all only: eq len)
  show "getUint32 (vmd_bytes enc [frame]) 86 = enc (fst (snd (cf_rotation frame)))"
    by (rule getUint32_at [where pre = "?pre @ ?rx" and post = "?rz @ ?post"])
       (simp_all add: eq header58_length le32_length)
  show "getUint32 (vmd_bytes enc [frame]) 90 = enc (snd (snd (cf_rotation frame)))"
    by (rule getUint32_at [where pre = "?pre @ ?rx @ ?ry" and post = "?post"])
       (simp_all add: eq header58_length le32_length)
qed

section \<open>The exported frame\<close>

text \<open>
  C10. For every choice of export options, \<^verbatim>\<open>exportVmd\<close> on a converter that holds a
  calibration record encodes exactly one camera frame: the buffer it returns is the
  encoding of the one frame it built, is exactly 135 bytes long, and its camera-frame
  count is 1. Several frames are written only by \<^verbatim>\<open>writeCameraVmd\<close>, which takes the list.
\<close>
theorem exportVmd_one_frame:
  assumes "fspyData this \<noteq> None"
  shows "\<exists>buf. exportVmd lib enc options this = (Inr buf, this) \<and>
           buf = vmd_bytes enc [exportVmd_frame lib options this] \<and>
           length buf = 135 \<and> unat (getUint32 buf 58) = 1"
proof -
  have "length (vmd_bytes enc [exportVmd_frame lib options this]) = 135"
    using vmd_bytes_length [OF exportVmd_frame_curve, of enc lib options this] by simp
  moreover have "unat (getUint32 (vmd_bytes enc [exportVmd_frame lib options this]) 58) = 1"
    by (simp add: vmd_bytes_count)
  ultimately show ?thesis
    using exportVmd_set [OF assms, of lib enc options] by simp
qed

lemma getters_of_position:
  "getWorldPosition (getters_of lib world) cam
     = setFromMatrixPosition world (matrixWorld (updateWorldMatrix world cam))"
  by (simp add: getters_of_def Object3D_getWorldPosition_def Let_def)

lemma getters_of_quaternion:
  "getWorldQuaternion (getters_of lib world) cam
     = fst (snd (decompose lib (matrixWorld (updateWorldMatrix world cam))))"
  by (simp add: getters_of_def Object3D_getWorldQuaternion_def Let_def)

lemma getters_of_setFromQuaternion:
  "setFromQuaternion (getters_of lib world) = setFromQuaternion lib"
  by (simp add: getters_of_def)

lemma exportVmd_threaded_set:
  assumes idem: "\<forall>cam. updateWorldMatrix world (updateWorldMatrix world cam)
                        = updateWorldMatrix world cam"
    and keeps: "\<forall>cam. fov (updateWorldMatrix world cam) = fov cam"
    and held: "fspyData this \<noteq> None"
  shows "exportVmd_threaded lib world enc options this
         = (Inr (vmd_bytes enc [exportVmd_frame (getters_of lib world) options this]),
            this\<lparr>camera := updateWorldMatrix world (camera this)\<rparr>)"
proof -
  from held obtain d where d: "fspyData this = Some d" by blast
  have "exportVmd_threaded lib world enc options this
        = (writeCameraVmd enc [exportVmd_frame (getters_of lib world) options this],
           this\<lparr>camera := updateWorldMatrix world (camera this)\<rparr>)"
    using idem keeps d
    by (simp add: exportVmd_threaded_def exportVmd_frame_def Let_def
        Object3D_getWorldPosition_def Object3D_getWorldQuaternion_def
        getters_of_position getters_of_quaternion getters_of_setFromQuaternion)
  moreover have "writeCameraVmd enc [exportVmd_frame (getters_of lib world) options this]
                 = Inr (vmd_bytes enc [exportVmd_frame (getters_of lib world) options this])"
    using exportVmd_frame_curve by (rule writeCameraVmd_refines)
  ultimately show ?thesis by simp
qed

lemma exportVmd_frame_updated:
  assumes idem: "\<forall>cam. updateWorldMatrix world (updateWorldMatrix world cam)
                        = updateWorldMatrix world cam"
    and keeps: "\<forall>cam. fov (updateWorldMatrix world cam) = fov cam"
  shows "exportVmd_frame (getters_of lib world) options
           (this\<lparr>camera := updateWorldMatrix world (camera this)\<rparr>)
         = exportVmd_frame (getters_of lib world) options this"
  using idem keeps
  by (simp add: exportVmd_frame_def Let_def getters_of_position getters_of_quaternion)

text \<open>
  C9. Export is deterministic. On a converter that holds a record \<^verbatim>\<open>exportVmd\<close> returns a
  buffer, and a second call with the same options, on the converter as the first call left
  it, returns the same buffer, byte for byte. The call leaves the held record and the
  options as they were; the camera it leaves is the one \<^verbatim>\<open>updateWorldMatrix\<close> of the
  library produces, and a further call changes nothing more. Here \<^verbatim>\<open>updateWorldMatrix\<close> is
  taken to be idempotent and to leave \<open>fov\<close> alone, as the one of three.js is. The buffer
  is the layout of the one frame built from what the getters return. Without a record every
  call fails alike and changes nothing. The writer, for all its cursor and buffer, returns
  the layout \<open>vmd_bytes\<close> of its frame sequence.
\<close>
theorem exportVmd_repeatable:
  assumes idem: "\<forall>cam. updateWorldMatrix world (updateWorldMatrix world cam)
                        = updateWorldMatrix world cam"
    and keeps: "\<forall>cam. fov (updateWorldMatrix world cam) = fov cam"
  shows "(fspyData this \<noteq> None \<longrightarrow>
            (\<exists>buf this1.
               exportVmd_threaded lib world enc options this = (Inr buf, this1) \<and>
               exportVmd_threaded lib world enc options this1 = (Inr buf, this1) \<and>
               length buf = 135 \<and>
               buf = vmd_bytes enc [exportVmd_frame (getters_of lib world) options this] \<and>
               fst (exportVmd (getters_of lib world) enc options this) = Inr buf \<and>
               fspyData this1 = fspyData this \<and>
               converterOptions this1 = converterOptions this \<and>
               camera this1 = updateWorldMatrix world (camera this))) \<and>
         (fspyData this = None \<longrightarrow>
            exportVmd_threaded lib world enc options this
              = (Inl (FspyVmdConverterError FSPY_DATA_NOT_SET), this)) \<and>
         ((\<forall>f \<in> set cameraFrames. length (cf_curve f) = 24) \<longrightarrow>
            writeCameraVmd enc cameraFrames = Inr (vmd_bytes enc cameraFrames))"
proof (intro conjI impI)
  assume held: "fspyData this \<noteq> None"
  let ?buf = "vmd_bytes enc [exportVmd_frame (getters_of lib world) options this]"
  let ?this1 = "this\<lparr>camera := updateWorldMatrix world (camera this)\<rparr>"
  have first: "exportVmd_threaded lib world enc options this = (Inr ?buf, ?this1)"
    using idem keeps held by (rule exportVmd_threaded_set)
  have held1: "fspyData ?this1 \<noteq> None"
    using held by simp
  have "exportVmd_threaded lib world enc options ?this1
        = (Inr (vmd_bytes enc [exportVmd_frame (getters_of lib world) options ?this1]),
           ?this1\<lparr>camera := updateWorldMatrix world (camera ?this1)\<rparr>)"
    using idem keeps held1 by (rule exportVmd_threaded_set)
  moreover have "exportVmd_frame (getters_of lib world) options ?this1
                 = exportVmd_frame (getters_of lib world) options this"
    using idem keeps by (rule exportVmd_frame_updated)
  moreover have "?this1\<lparr>camera := updateWorldMatrix world (camera ?this1)\<rparr> = ?this1"
    using idem by simp
  ultimately have second: "exportVmd_threaded lib world enc options ?this1 = (Inr ?buf, ?this1)"
    by simp
  have len: "length ?buf = 135"
    using vmd_bytes_length [OF exportVmd_frame_curve, of enc "getters_of lib world" options this]
    by simp
  have pure: "fst (exportVmd (getters_of lib world) enc options this) = Inr ?buf"
    using exportVmd_set [OF held, of "getters_of lib world" enc options] by simp
  from first second len pure
  show "\<exists>buf this1.
               exportVmd_threaded lib world enc options this = (Inr buf, this1) \<and>
               exportVmd_threaded lib world enc options this1 = (Inr buf, this1) \<and>
               length buf = 135 \<and>
               buf = vmd_bytes enc [exportVmd_frame (getters_of lib world) options this] \<and>
               fst (exportVmd (getters_of lib world) enc options this) = Inr buf \<and>
               fspyData this1 = fspyData this \<and>
               converterOptions this1 = converterOptions this \<and>
               camera this1 = updateWorldMatrix world (camera this)"
    by (intro exI [of _ ?buf] exI [of _ ?this1]) simp
next
  assume "fspyData this = None"
  then show "exportVmd_threaded lib world enc options this
              = (Inl (FspyVmdConverterError FSPY_DATA_NOT_SET), this)"
    by (simp add: exportVmd_threaded_def)
next
  assume "\<forall>f \<in> set cameraFrames. length (cf_curve f) = 24"
  then show "writeCameraVmd enc cameraFrames = Inr (vmd_bytes enc cameraFrames)"
    by (rule writeCameraVmd_refines)
qed

theorem exportVmd_repeatable_witness:
  "fspyData stale_converter \<noteq> None \<and>
   \<not> isl (fst (exportVmd_threaded example_three example_world example_float32 no_options
     stale_converter)) \<and>
   length (projr (fst (exportVmd_threaded example_three example_world example_float32 no_options
     stale_converter))) = 135 \<and>
   snd (exportVmd_threaded example_three example_world example_float32 no_options stale_converter)
     \<noteq> stale_converter \<and>
   fst (exportVmd_threaded example_three example_world example_float32 no_options
     (snd (exportVmd_threaded example_three example_world example_float32 no_options
        stale_converter)))
     = fst (exportVmd_threaded example_three example_world example_float32 no_options
        stale_converter) \<and>
   cf_distance (exportVmd_frame (getters_of example_three example_world) no_options
     stale_converter) = - 50 \<and>
   projr (fst (exportVmd_threaded example_three example_world example_float32 no_options
     stale_converter))
     = vmd_bytes example_float32
         [exportVmd_frame (getters_of example_three example_world) no_options stale_converter] \<and>
   fspyData example_converter = None \<and>
   fst (exportVmd_threaded example_three example_world example_float32 no_options
     example_converter) = Inl (FspyVmdConverterError FSPY_DATA_NOT_SET) \<and>
   length (cf_curve example_frame) = 24 \<and>
   writeCameraVmd example_float32 [example_frame] = Inr (vmd_bytes example_float32 [example_frame])"
proof -
  have idem: "\<forall>cam. updateWorldMatrix example_world (updateWorldMatrix example_world cam)
                        = updateWorldMatrix example_world cam"
    and keeps: "\<forall>cam. fov (updateWorldMatrix example_world cam) = fov cam"
    by (simp_all add: example_world_def)
  have held: "fspyData stale_converter \<noteq> None"
    by (simp add: stale_converter_def)
  have none: "fspyData example_converter = None"
    by (simp add: example_converter_def new_FspyVmdConverter_def)
  have moved: "matrixWorld (updateWorldMatrix example_world (camera stale_converter))
               \<noteq> matrixWorld (camera stale_converter)"
    by (simp add: example_world_def stale_converter_def example_camera_def identity4_def
        translation_z10_def)
  from exportVmd_repeatable [OF idem keeps, of stale_converter example_three example_float32
      no_options "[example_frame]"] held example_frame_curve
  obtain buf this1 where run:
      "exportVmd_threaded example_three example_world example_float32 no_options stale_converter
       = (Inr buf, this1)"
      "exportVmd_threaded example_three example_world example_float32 no_options this1
       = (Inr buf, this1)"
      "length buf = 135"
      "camera this1 = updateWorldMatrix example_world (camera stale_converter)"
      "buf = vmd_bytes example_float32
         [exportVmd_frame (getters_of example_three example_world) no_options stale_converter]"
    and writer: "writeCameraVmd example_float32 [example_frame]
                 = Inr (vmd_bytes example_float32 [example_frame])"
    by auto
  have "sqrt (100::real) = 10" by (rule real_sqrt_unique) simp_all
  then have dist: "cf_distance (exportVmd_frame (getters_of example_three example_world) no_options
     stale_converter) = - 50"
    by (simp add: exportVmd_frame_def Let_def getters_of_position example_world_def
        stale_converter_def example_camera_def translation_z10_def element_or_zero_def
        js_index_def no_options_def nullish_def)
  from run(4) moved have "this1 \<noteq> stale_converter" by auto
  moreover from exportVmd_repeatable [OF idem keeps, of example_converter example_three
      example_float32 no_options "[]"] none
  have "fst (exportVmd_threaded example_three example_world example_float32 no_options
     example_converter) = Inl (FspyVmdConverterError FSPY_DATA_NOT_SET)"
    by simp
  ultimately show ?thesis
    using run dist held none writer example_frame_curve by simp
qed

lemma applyFSpyToCamera_fspyData:
  "fspyData (snd (applyFSpyToCamera lib fspy opts this)) = Some fspy"
  by (simp add: applyFSpyToCamera_def Let_def cloneFspyData_def split: sum.splits prod.splits)

lemma applyFSpyToCamera_converterOptions:
  "converterOptions (snd (applyFSpyToCamera lib fspy opts this)) = converterOptions this"
  by (simp add: applyFSpyToCamera_def Let_def split: sum.splits prod.splits)

lemma applied_converter_fspyData: "fspyData applied_converter \<noteq> None"
  by (simp add: applied_converter_def applyFSpyToCamera_fspyData)

lemma applied_converter_options: "converterOptions applied_converter = 5"
  by (simp add: applied_converter_def applyFSpyToCamera_converterOptions example_converter_def
      new_FspyVmdConverter_def nullish_def DISTANCE_BASE_MULTIPLIER_def)

theorem exportVmd_one_frame_witness:
  "fspyData applied_converter \<noteq> None \<and>
   length (projr (fst (exportVmd example_three example_float32 no_options applied_converter))) = 135 \<and>
   unat (getUint32
     (projr (fst (exportVmd example_three example_float32 no_options applied_converter))) 58) = 1"
  using exportVmd_one_frame [OF applied_converter_fspyData, of example_three example_float32 no_options]
    applied_converter_fspyData
  by auto

text \<open>
  C4. For every camera world position and target position (the origin when none is
  given), the distance of the frame that \<^verbatim>\<open>exportVmd\<close> produces is the negative of their
  Euclidean distance times \<open>distanceMultiplier\<close> (1 when not given) times
  \<open>distanceBaseMultiplier\<close> (5 for a converter constructed without options); a camera at
  \<open>(0, 0, 10)\<close> with the defaults gives \<open>- 50\<close>. That distance is the float field at
  offset 66 of the exported buffer.
\<close>
theorem exportVmd_distance:
  assumes "getWorldPosition lib (camera this) = (px, py, pz)"
    and "nullish (target options) (0, 0, 0) = (tx, ty, tz)"
  shows "cf_distance (exportVmd_frame lib options this)
           = - (sqrt ((px - tx)\<^sup>2 + (py - ty)\<^sup>2 + (pz - tz)\<^sup>2)
                * nullish (distanceMultiplier options) 1 * converterOptions this) \<and>
         converterOptions (new_FspyVmdConverter cam None) = 5 \<and>
         ((px, py, pz) = (0, 0, 10) \<and> target options = None \<and> distanceMultiplier options = None \<and>
          converterOptions this = converterOptions (new_FspyVmdConverter cam None) \<longrightarrow>
          cf_distance (exportVmd_frame lib options this) = - 50) \<and>
         (fspyData this \<noteq> None \<longrightarrow>
          (\<exists>buf. exportVmd lib enc options this = (Inr buf, this) \<and>
                 getUint32 buf 66 = enc (cf_distance (exportVmd_frame lib options this))))"
proof -
  have d: "cf_distance (exportVmd_frame lib options this)
           = - (sqrt ((px - tx)\<^sup>2 + (py - ty)\<^sup>2 + (pz - tz)\<^sup>2)
                * nullish (distanceMultiplier options) 1 * converterOptions this)"
    using assms by (simp add: exportVmd_frame_def Let_def power2_eq_square)
  have five: "converterOptions (new_FspyVmdConverter cam None) = 5"
    by (simp add: new_FspyVmdConverter_def nullish_def DISTANCE_BASE_MULTIPLIER_def)
  have "sqrt (100::real) = 10" by (rule real_sqrt_unique) simp_all
  with d five assms(2)
  have scenario: "(px, py, pz) = (0, 0, 10) \<and> target options = None \<and> distanceMultiplier options = None \<and>
         converterOptions this = converterOptions (new_FspyVmdConverter cam None) \<longrightarrow>
         cf_distance (exportVmd_frame lib options this) = - 50"
    by (auto simp: nullish_def)
  have "fspyData this \<noteq> None \<longrightarrow>
         (\<exists>buf. exportVmd lib enc options this = (Inr buf, this) \<and>
                getUint32 buf 66 = enc (cf_distance (exportVmd_frame lib options this)))"
    by (simp add: exportVmd_set single_frame_distance)
  with d five scenario show ?thesis by blast
qed

theorem exportVmd_distance_witness:
  "getWorldPosition example_three (camera applied_converter) = (0, 0, 10) \<and>
   nullish (target no_options) (0, 0, 0) = (0, 0, 0) \<and>
   converterOptions applied_converter = converterOptions (new_FspyVmdConverter example_camera None) \<and>
   cf_distance (exportVmd_frame example_three no_options applied_converter) = - 50"
  using exportVmd_distance [of example_three applied_converter 0 0 10 no_options 0 0 0
      example_camera example_float32]
    applied_converter_options
  by (simp add: example_three_def no_options_def nullish_def)

text \<open>
  C8. In the frame that \<^verbatim>\<open>exportVmd\<close> produces, the rotation is the Y-X-Z Euler
  decomposition of the camera's world orientation with only its Z component negated; X and
  Y pass through unchanged. The three are the float fields at offsets 82, 86 and 90 of the
  exported buffer.
\<close>
theorem exportVmd_rotation:
  assumes "setFromQuaternion lib (getWorldQuaternion lib (camera this)) YXZ = (ex, ey, ez)"
  shows "cf_rotation (exportVmd_frame lib options this) = (ex, ey, - ez) \<and>
         (fspyData this \<noteq> None \<longrightarrow>
          (\<exists>buf. exportVmd lib enc options this = (Inr buf, this) \<and>
                 getUint32 buf 82 = enc ex \<and> getUint32 buf 86 = enc ey \<and>
                 getUint32 buf 90 = enc (- ez)))"
proof -
  have r: "cf_rotation (exportVmd_frame lib options this) = (ex, ey, - ez)"
    using assms by (simp add: exportVmd_frame_def Let_def)
  then show ?thesis
    by (simp add: exportVmd_set single_frame_rotation)
qed

theorem exportVmd_rotation_witness:
  "setFromQuaternion example_three (getWorldQuaternion example_three (camera applied_converter)) YXZ
     = (0, 0, pi) \<and>
   cf_rotation (exportVmd_frame example_three no_options applied_converter) = (0, 0, - pi)"
  using exportVmd_rotation [of example_three applied_converter 0 0 pi no_options]
  by (simp add: example_three_def)

lemma cell_inside:
  "r < length rs \<Longrightarrow> c < length (rs ! r) \<Longrightarrow> cell rs r c = rs ! r ! c"
  by (simp add: cell_def js_index_def)

lemma fromArray_nth:
  "length arr = 16 \<Longrightarrow> i < 16 \<Longrightarrow> fromArray arr ! i = arr ! i"
  by (simp add: fromArray_def js_index_def)

lemma fromArray_length: "length (fromArray arr) = 16"
  by (simp add: fromArray_def)

lemma matrixFromFSpyRows_fills:
  assumes len: "length rs = 4" and rows: "\<forall>row \<in> set rs. length row = 4 \<and> None \<notin> set row"
  shows "\<exists>m. matrixFromFSpyRows rs = Inr m \<and> length m = 16 \<and>
           (\<forall>r<4. \<forall>c<4. m ! (c * 4 + r) = rs ! r ! c)"
proof -
  have row: "length (rs ! r) = 4" "None \<notin> set (rs ! r)" if "r < 4" for r
    using that len rows nth_mem [of r rs] by auto
  have cell: "cell rs r c = rs ! r ! c" "cell rs r c \<noteq> None" if "r < 4" "c < 4" for r c
  proof -
    show eq: "cell rs r c = rs ! r ! c"
      using that len row(1) by (simp add: cell_inside)
    have "rs ! r ! c \<in> set (rs ! r)"
      using that row(1) by simp
    with row(2) [OF that(1)] eq show "cell rs r c \<noteq> None"
      by metis
  qed
  then have "\<forall>r c. 0 \<le> r \<and> r < 4 \<and> c < 4 \<longrightarrow> cell rs r c \<noteq> None"
    by simp
  from fillRows_fills [OF this, of "replicate MATRIX_ELEMENT_COUNT None"]
  obtain arr where arr: "fillRows rs 0 (replicate MATRIX_ELEMENT_COUNT None) = Inr arr"
      "length arr = length (replicate MATRIX_ELEMENT_COUNT (None :: real option))"
    and all: "\<forall>i < length (replicate MATRIX_ELEMENT_COUNT (None :: real option)). arr ! i =
        (if 0 \<le> i mod 4 \<and> i div 4 < 4 then cell rs (i mod 4) (i div 4)
         else replicate MATRIX_ELEMENT_COUNT None ! i)"
    by blast
  from arr(2) have len16: "length arr = 16"
    by (simp add: MATRIX_ELEMENT_COUNT_def)
  have nth: "arr ! i = cell rs (i mod 4) (i div 4)" if "i < 16" for i
  proof -
    from that have "i div 4 < 4" by simp
    with all that show ?thesis by (simp add: MATRIX_ELEMENT_COUNT_def)
  qed
  have shape: "\<not> (length rs \<noteq> MATRIX_SIZE \<or> list_ex (\<lambda>row. length row \<noteq> MATRIX_SIZE) rs)"
    using len rows by (simp add: MATRIX_SIZE_def list_ex_iff)
  have m: "matrixFromFSpyRows rs = Inr (fromArray arr)"
    unfolding matrixFromFSpyRows_def using shape arr(1) by simp
  have "fromArray arr ! (c * 4 + r) = rs ! r ! c" if "r < 4" "c < 4" for r c
  proof -
    from that have i: "c * 4 + r < 16" by simp
    from that have "(c * 4 + r) mod 4 = r" "(c * 4 + r) div 4 = c" by simp_all
    with nth [OF i] cell(1) [OF that] fromArray_nth [OF len16 i] show ?thesis
      by simp
  qed
  with m fromArray_length show ?thesis by blast
qed

lemma rowsFromColumnMajor_inverse:
  assumes "length rs = 4" and "\<forall>row \<in> set rs. length row = 4"
    and "\<forall>r<4. \<forall>c<4. m ! (c * 4 + r) = rs ! r ! c"
  shows "rowsFromColumnMajor m = rs"
proof (rule nth_equalityI)
  show "length (rowsFromColumnMajor m) = length rs"
    using assms(1) by (simp add: rowsFromColumnMajor_def)
next
  fix r assume "r < length (rowsFromColumnMajor m)"
  then have r: "r < 4" by (simp add: rowsFromColumnMajor_def)
  with assms(1,2) have len: "length (rs ! r) = 4" using nth_mem [of r rs] by auto
  show "rowsFromColumnMajor m ! r = rs ! r"
  proof (rule nth_equalityI)
    show "length (rowsFromColumnMajor m ! r) = length (rs ! r)"
      using r len by (simp add: rowsFromColumnMajor_def)
  next
    fix c assume "c < length (rowsFromColumnMajor m ! r)"
    with r have c: "c < 4" by (simp add: rowsFromColumnMajor_def)
    with r assms(3) show "rowsFromColumnMajor m ! r ! c = rs ! r ! c"
      by (simp add: rowsFromColumnMajor_def)
  qed
qed

section \<open>The matrix conversion is a transposition\<close>

text \<open>
  C3. For every 4 by 4 row-major matrix without a missing element, \<^verbatim>\<open>matrixFromFSpyRows\<close>
  returns sixteen elements with \<open>src[row][col]\<close> at index \<open>col * 4 + row\<close>, and
  transposing back recovers the matrix, element for element.
\<close>
theorem matrixFromFSpyRows_transpose:
  assumes "length rs = 4" and "\<forall>row \<in> set rs. length row = 4 \<and> None \<notin> set row"
  shows "\<exists>m. matrixFromFSpyRows rs = Inr m \<and> length m = 16 \<and>
           (\<forall>r<4. \<forall>c<4. m ! (c * 4 + r) = rs ! r ! c) \<and>
           rowsFromColumnMajor m = rs"
proof -
  from matrixFromFSpyRows_fills [OF assms]
  obtain m where m: "matrixFromFSpyRows rs = Inr m" "length m = 16"
      "\<forall>r<4. \<forall>c<4. m ! (c * 4 + r) = rs ! r ! c"
    by blast
  from assms have "\<forall>row \<in> set rs. length row = 4" by simp
  with assms(1) m(3) have "rowsFromColumnMajor m = rs"
    by (intro rowsFromColumnMajor_inverse)
  with m show ?thesis by blast
qed

theorem matrixFromFSpyRows_transpose_witness:
  "length rows_4x4 = 4 \<and>
   projr (matrixFromFSpyRows rows_4x4) ! (2 * 4 + 1) = rows_4x4 ! 1 ! 2 \<and>
   rows_4x4 ! 1 ! 2 = Some 7 \<and>
   rowsFromColumnMajor (projr (matrixFromFSpyRows rows_4x4)) = rows_4x4"
proof -
  have "length rows_4x4 = 4" and "\<forall>row \<in> set rows_4x4. length row = 4 \<and> None \<notin> set row"
    by (simp_all add: rows_4x4_def)
  from matrixFromFSpyRows_transpose [OF this]
  obtain m where m: "matrixFromFSpyRows rows_4x4 = Inr m"
      "\<forall>r<4. \<forall>c<4. m ! (c * 4 + r) = rows_4x4 ! r ! c"
      "rowsFromColumnMajor m = rows_4x4"
    by blast
  from m(2) have "(1::nat) < 4 \<longrightarrow> (2::nat) < 4 \<longrightarrow> m ! (2 * 4 + 1) = rows_4x4 ! 1 ! 2"
    by blast
  then have "m ! (2 * 4 + 1) = rows_4x4 ! 1 ! 2"
    by simp
  with m(1,3) show ?thesis
    by (simp add: rows_4x4_def)
qed

lemma matrixFromFSpyRows_shape:
  "length rs \<noteq> 4 \<or> (\<exists>row \<in> set rs. length row \<noteq> 4) \<Longrightarrow>
   matrixFromFSpyRows rs = Inl (FspyVmdConverterError INVALID_CAMERA_TRANSFORM_ROWS_SIZE)"
  by (auto simp: matrixFromFSpyRows_def MATRIX_SIZE_def list_ex_iff)

lemma matrixFromFSpyRows_value:
  assumes len: "length rs = 4" and rows: "\<forall>row \<in> set rs. length row = 4"
    and hole: "\<exists>row \<in> set rs. None \<in> set row"
  shows "matrixFromFSpyRows rs = Inl (FspyVmdConverterError INVALID_CAMERA_TRANSFORM_VALUE)"
proof -
  from hole obtain row where row: "row \<in> set rs" "None \<in> set row" by blast
  from row(1) len obtain r where r: "r < 4" "rs ! r = row"
    by (metis in_set_conv_nth)
  from row(2) rows row(1) obtain c where c: "c < 4" "row ! c = None"
    by (metis in_set_conv_nth)
  from r c len rows row(1) have "cell rs r c = None"
    by (simp add: cell_inside)
  with r(1) c(1)
  have "fillRows rs 0 (replicate MATRIX_ELEMENT_COUNT None)
        = Inl (FspyVmdConverterError INVALID_CAMERA_TRANSFORM_VALUE)"
    by (intro fillRows_fails [of 0 r c]) simp_all
  moreover have "\<not> (length rs \<noteq> MATRIX_SIZE \<or> list_ex (\<lambda>row. length row \<noteq> MATRIX_SIZE) rs)"
    using len rows by (simp add: MATRIX_SIZE_def list_ex_iff)
  ultimately show ?thesis
    unfolding matrixFromFSpyRows_def by simp
qed

lemma matrixFromFSpyRows_error:
  "matrixFromFSpyRows rs = Inl e \<Longrightarrow>
   e = FspyVmdConverterError INVALID_CAMERA_TRANSFORM_ROWS_SIZE \<or>
   e = FspyVmdConverterError INVALID_CAMERA_TRANSFORM_VALUE"
  by (auto simp: matrixFromFSpyRows_def split: if_splits sum.splits dest: fillRows_error)

lemma applyFSpyToCamera_throws:
  "matrixFromFSpyRows (rows (cameraTransform fspy)) = Inl e \<Longrightarrow>
   applyFSpyToCamera lib fspy opts this =
     (Some e,
      this\<lparr>fspyData := Some fspy,
           camera := (camera this)
             \<lparr>fov := verticalFieldOfView fspy * 180 / pi,
              aspect := js_div (imageWidth fspy) (imageHeight fspy),
              near := nullish (Option.bind opts opt_near) (1 / 100),
              far := nullish (Option.bind opts opt_far) 2000,
              projectionMatrix := makePerspective lib ((camera this)
                \<lparr>fov := verticalFieldOfView fspy * 180 / pi,
                 aspect := js_div (imageWidth fspy) (imageHeight fspy),
                 near := nullish (Option.bind opts opt_near) (1 / 100),
                 far := nullish (Option.bind opts opt_far) 2000\<rparr>)\<rparr>\<rparr>)"
  by (simp add: applyFSpyToCamera_def Let_def cloneFspyData_def updateProjectionMatrix_def
      radToDeg_def DEGREES_PER_HALF_TURN_def DEFAULT_NEAR_def DEFAULT_FAR_def)

lemma applyFSpyToCamera_returns:
  "matrixFromFSpyRows (rows (cameraTransform fspy)) = Inr m \<Longrightarrow>
   fst (applyFSpyToCamera lib fspy opts this) = None"
  by (simp add: applyFSpyToCamera_def Let_def split: prod.splits)

lemma applyFSpyToCamera_thrown:
  "fst (applyFSpyToCamera lib fspy opts this) = Some e \<Longrightarrow>
   matrixFromFSpyRows (rows (cameraTransform fspy)) = Inl e"
  by (cases "matrixFromFSpyRows (rows (cameraTransform fspy))")
     (auto simp: applyFSpyToCamera_throws applyFSpyToCamera_returns)

section \<open>Failures of the calibration\<close>

text \<open>
  C6. Matrix validation in \<^verbatim>\<open>applyFSpyToCamera\<close> fails with
  \<^verbatim>\<open>INVALID_CAMERA_TRANSFORM_ROWS_SIZE\<close> for every \<open>rows\<close> that has not exactly 4 rows or has
  a row whose length is not 4, and with \<^verbatim>\<open>INVALID_CAMERA_TRANSFORM_VALUE\<close> for every 4 by
  4 \<open>rows\<close> with a missing element. In both cases the conversion yields no matrix, and the
  world and local matrices of the camera are the ones it had.
\<close>
theorem matrix_validation:
  assumes "rs = rows (cameraTransform fspy)"
  shows "(length rs \<noteq> 4 \<or> (\<exists>row \<in> set rs. length row \<noteq> 4) \<longrightarrow>
            matrixFromFSpyRows rs = Inl (FspyVmdConverterError INVALID_CAMERA_TRANSFORM_ROWS_SIZE) \<and>
            fst (applyFSpyToCamera lib fspy opts this)
              = Some (FspyVmdConverterError INVALID_CAMERA_TRANSFORM_ROWS_SIZE)) \<and>
         (length rs = 4 \<and> (\<forall>row \<in> set rs. length row = 4) \<and> (\<exists>row \<in> set rs. None \<in> set row) \<longrightarrow>
            matrixFromFSpyRows rs = Inl (FspyVmdConverterError INVALID_CAMERA_TRANSFORM_VALUE) \<and>
            fst (applyFSpyToCamera lib fspy opts this)
              = Some (FspyVmdConverterError INVALID_CAMERA_TRANSFORM_VALUE)) \<and>
         (fst (applyFSpyToCamera lib fspy opts this) \<noteq> None \<longrightarrow>
            matrixWorld (camera (snd (applyFSpyToCamera lib fspy opts this)))
              = matrixWorld (camera this) \<and>
            matrix (camera (snd (applyFSpyToCamera lib fspy opts this)))
              = matrix (camera this))"
proof (intro conjI impI)
  assume a: "length rs \<noteq> 4 \<or> (\<exists>row \<in> set rs. length row \<noteq> 4)"
  then show b: "matrixFromFSpyRows rs = Inl (FspyVmdConverterError INVALID_CAMERA_TRANSFORM_ROWS_SIZE)"
    by (rule matrixFromFSpyRows_shape)
  with assms show "fst (applyFSpyToCamera lib fspy opts this)
              = Some (FspyVmdConverterError INVALID_CAMERA_TRANSFORM_ROWS_SIZE)"
    by (simp add: applyFSpyToCamera_throws)
next
  assume a: "length rs = 4 \<and> (\<forall>row \<in> set rs. length row = 4) \<and> (\<exists>row \<in> set rs. None \<in> set row)"
  then show b: "matrixFromFSpyRows rs = Inl (FspyVmdConverterError INVALID_CAMERA_TRANSFORM_VALUE)"
    by (intro matrixFromFSpyRows_value) simp_all
  with assms show "fst (applyFSpyToCamera lib fspy opts this)
              = Some (FspyVmdConverterError INVALID_CAMERA_TRANSFORM_VALUE)"
    by (simp add: applyFSpyToCamera_throws)
next
  assume "fst (applyFSpyToCamera lib fspy opts this) \<noteq> None"
  then obtain e where "fst (applyFSpyToCamera lib fspy opts this) = Some e" by blast
  then have e: "matrixFromFSpyRows (rows (cameraTransform fspy)) = Inl e"
    by (rule applyFSpyToCamera_thrown)
  show "matrixWorld (camera (snd (applyFSpyToCamera lib fspy opts this))) = matrixWorld (camera this)"
    by (simp add: applyFSpyToCamera_throws [OF e])
  show "matrix (camera (snd (applyFSpyToCamera lib fspy opts this))) = matrix (camera this)"
    by (simp add: applyFSpyToCamera_throws [OF e])
qed

theorem matrix_validation_witness:
  "length rows_3x4 \<noteq> 4 \<and>
   fst (applyFSpyToCamera example_three (example_fspy rows_3x4) None example_converter)
     = Some (FspyVmdConverterError INVALID_CAMERA_TRANSFORM_ROWS_SIZE) \<and>
   length rows_short_row = 4 \<and> length (rows_short_row ! 1) = 3 \<and>
   fst (applyFSpyToCamera example_three (example_fspy rows_short_row) None example_converter)
     = Some (FspyVmdConverterError INVALID_CAMERA_TRANSFORM_ROWS_SIZE) \<and>
   length rows_hole = 4 \<and> rows_hole ! 1 ! 2 = None \<and>
   fst (applyFSpyToCamera example_three (example_fspy rows_hole) None example_converter)
     = Some (FspyVmdConverterError INVALID_CAMERA_TRANSFORM_VALUE) \<and>
   matrixWorld (camera (snd (applyFSpyToCamera example_three (example_fspy rows_hole) None
     example_converter))) = identity4"
  using matrix_validation [of rows_3x4 "example_fspy rows_3x4" example_three None example_converter]
    matrix_validation [of rows_short_row "example_fspy rows_short_row" example_three None
      example_converter]
    matrix_validation [of rows_hole "example_fspy rows_hole" example_three None example_converter]
  by (simp add: example_fspy_def rows_3x4_def rows_short_row_def rows_hole_def
      example_converter_def new_FspyVmdConverter_def example_camera_def)

text \<open>
  C1, as the claim states it, fails: \<^verbatim>\<open>applyFSpyToCamera\<close> stores the copy of the record
  and assigns \<open>fov\<close>, \<open>aspect\<close>, \<open>near\<close> and \<open>far\<close> before it converts, and so validates,
  the matrix. On a fresh converter and a matrix of three rows the call throws, and the
  converter then holds the record and the camera has \<open>near = 0.01\<close> where it had \<open>0.1\<close>.
\<close>
theorem applyFSpyToCamera_not_atomic_counterexample:
  "fst (applyFSpyToCamera example_three (example_fspy rows_3x4) None example_converter)
     = Some (FspyVmdConverterError INVALID_CAMERA_TRANSFORM_ROWS_SIZE) \<and>
   fspyData example_converter = None \<and>
   fspyData (snd (applyFSpyToCamera example_three (example_fspy rows_3x4) None example_converter))
     = Some (example_fspy rows_3x4) \<and>
   near (camera example_converter) = 1 / 10 \<and>
   near (camera (snd (applyFSpyToCamera example_three (example_fspy rows_3x4) None
     example_converter))) = 1 / 100 \<and>
   snd (applyFSpyToCamera example_three (example_fspy rows_3x4) None example_converter)
     \<noteq> example_converter"
proof -
  have "matrixFromFSpyRows (rows (cameraTransform (example_fspy rows_3x4)))
        = Inl (FspyVmdConverterError INVALID_CAMERA_TRANSFORM_ROWS_SIZE)"
    by (rule matrixFromFSpyRows_shape) (simp add: example_fspy_def rows_3x4_def)
  from applyFSpyToCamera_throws [OF this, of example_three None example_converter]
  have *: "fst (applyFSpyToCamera example_three (example_fspy rows_3x4) None example_converter)
     = Some (FspyVmdConverterError INVALID_CAMERA_TRANSFORM_ROWS_SIZE)"
    "fspyData (snd (applyFSpyToCamera example_three (example_fspy rows_3x4) None example_converter))
     = Some (example_fspy rows_3x4)"
    "near (camera (snd (applyFSpyToCamera example_three (example_fspy rows_3x4) None
     example_converter))) = 1 / 100"
    by (simp_all add: nullish_def)
  have **: "fspyData example_converter = None" "near (camera example_converter) = 1 / 10"
    by (simp_all add: example_converter_def new_FspyVmdConverter_def example_camera_def)
  from * ** have "snd (applyFSpyToCamera example_three (example_fspy rows_3x4) None example_converter)
     \<noteq> example_converter"
    by (metis option.distinct(1))
  with * ** show ?thesis by simp
qed

text \<open>
  C1, amended. If \<^verbatim>\<open>applyFSpyToCamera\<close> throws, the error is one of the two of matrix
  validation, and the world matrix, the local matrix, position, quaternion, scale and
  \<open>matrixAutoUpdate\<close> of the camera, and the options of the converter, are exactly as they
  were before the call. Nothing is said of the held record and of \<open>fov\<close>, \<open>aspect\<close>,
  \<open>near\<close> and \<open>far\<close>, which are assigned before the matrix is validated.
\<close>
theorem applyFSpyToCamera_failure:
  assumes "applyFSpyToCamera lib fspy opts this = (Some e, this')"
  shows "(e = FspyVmdConverterError INVALID_CAMERA_TRANSFORM_ROWS_SIZE \<or>
          e = FspyVmdConverterError INVALID_CAMERA_TRANSFORM_VALUE) \<and>
         matrixFromFSpyRows (rows (cameraTransform fspy)) = Inl e \<and>
         matrixWorld (camera this') = matrixWorld (camera this) \<and>
         matrix (camera this') = matrix (camera this) \<and>
         position (camera this') = position (camera this) \<and>
         quaternion (camera this') = quaternion (camera this) \<and>
         scale (camera this') = scale (camera this) \<and>
         matrixAutoUpdate (camera this') = matrixAutoUpdate (camera this) \<and>
         converterOptions this' = converterOptions this"
proof -
  from assms have "fst (applyFSpyToCamera lib fspy opts this) = Some e" by simp
  then have e: "matrixFromFSpyRows (rows (cameraTransform fspy)) = Inl e"
    by (rule applyFSpyToCamera_thrown)
  from applyFSpyToCamera_throws [OF e, of lib opts this] assms
  have "this' = this\<lparr>fspyData := Some fspy,
           camera := (camera this)
             \<lparr>fov := verticalFieldOfView fspy * 180 / pi,
              aspect := js_div (imageWidth fspy) (imageHeight fspy),
              near := nullish (Option.bind opts opt_near) (1 / 100),
              far := nullish (Option.bind opts opt_far) 2000,
              projectionMatrix := makePerspective lib ((camera this)
                \<lparr>fov := verticalFieldOfView fspy * 180 / pi,
                 aspect := js_div (imageWidth fspy) (imageHeight fspy),
                 near := nullish (Option.bind opts opt_near) (1 / 100),
                 far := nullish (Option.bind opts opt_far) 2000\<rparr>)\<rparr>\<rparr>"
    by simp
  with e matrixFromFSpyRows_error [OF e] show ?thesis
    by simp
qed

theorem applyFSpyToCamera_failure_witness:
  "fst (applyFSpyToCamera example_three (example_fspy rows_hole) None applied_converter)
     = Some (FspyVmdConverterError INVALID_CAMERA_TRANSFORM_VALUE) \<and>
   matrixWorld (camera (snd (applyFSpyToCamera example_three (example_fspy rows_hole) None
     applied_converter))) = matrixWorld (camera applied_converter) \<and>
   matrixAutoUpdate (camera (snd (applyFSpyToCamera example_three (example_fspy rows_hole) None
     applied_converter))) = matrixAutoUpdate (camera applied_converter)"
proof -
  have "matrixFromFSpyRows (rows (cameraTransform (example_fspy rows_hole)))
        = Inl (FspyVmdConverterError INVALID_CAMERA_TRANSFORM_VALUE)"
    by (rule matrixFromFSpyRows_value) (simp_all add: example_fspy_def rows_hole_def)
  from applyFSpyToCamera_throws [OF this, of example_three None applied_converter]
  have f: "fst (applyFSpyToCamera example_three (example_fspy rows_hole) None applied_converter)
        = Some (FspyVmdConverterError INVALID_CAMERA_TRANSFORM_VALUE)"
    by simp
  then have "applyFSpyToCamera example_three (example_fspy rows_hole) None applied_converter
        = (Some (FspyVmdConverterError INVALID_CAMERA_TRANSFORM_VALUE),
           snd (applyFSpyToCamera example_three (example_fspy rows_hole) None applied_converter))"
    by (simp add: prod_eq_iff)
  from applyFSpyToCamera_failure [OF this] f show ?thesis
    by simp
qed

end
